theory Spec2Isabelle
  imports Complex_Main
begin

section \<open>Python strings as the mutations use them\<close>

text \<open>
  The mutations of \<^verbatim>\<open>crm/schema.py\<close> choose the field tag of an error by searching the
  lower-cased text of the exception (\<^verbatim>\<open>"email" in str(e).lower()\<close>). Strings are lists of
  characters; a character is a code point below 256.
\<close>

definition upper_chars :: string where
  "upper_chars = ''ABCDEFGHIJKLMNOPQRSTUVWXYZ''"

definition lower_chars :: string where
  "lower_chars = ''abcdefghijklmnopqrstuvwxyz''"

definition lower_char :: "char \<Rightarrow> char" where
  \<comment> \<open>\<^verbatim>\<open>str.lower\<close> on one character; the messages searched hold ASCII text only.\<close>
  "lower_char c = (case map_of (zip upper_chars lower_chars) c of None \<Rightarrow> c | Some l \<Rightarrow> l)"

definition py_lower :: "string \<Rightarrow> string" where
  "py_lower s = map lower_char s"

fun py_in :: "string \<Rightarrow> string \<Rightarrow> bool" where
  \<comment> \<open>\<^verbatim>\<open>needle in hay\<close> for strings: the needle occurs as a contiguous run.\<close>
  "py_in needle [] = (needle = [])"
| "py_in needle (c # cs) = (take (length needle) (c # cs) = needle \<or> py_in needle cs)"

definition digit_chars :: string where
  "digit_chars = ''0123456789''"

definition digit_char :: "nat \<Rightarrow> char" where
  "digit_char n = digit_chars ! (n mod 10)"

function str_nat :: "nat \<Rightarrow> string" where
  \<comment> \<open>\<^verbatim>\<open>str(n)\<close> and \<^verbatim>\<open>f"{n}"\<close> for a non-negative integer: its decimal digits.\<close>
  "str_nat n = (if n < 10 then [digit_char n] else str_nat (n div 10) @ [digit_char n])"
  by pat_completeness auto
termination
  by (relation "measure id") auto

declare str_nat.simps [simp del]

definition squote :: char where
  "squote = CHR 0x27"

definition dquote :: char where
  "dquote = CHR 0x22"

definition backslash :: char where
  "backslash = CHR 0x5C"

definition printable :: "char \<Rightarrow> bool" where
  \<comment> \<open>\<^verbatim>\<open>str.isprintable\<close> on one character: below code point 256 the printable
      characters are 32 to 126 and 161 to 255 without the soft hyphen, 173.\<close>
  "printable c =
     ((32 \<le> (of_char c :: nat) \<and> (of_char c :: nat) \<le> 126)
      \<or> (161 \<le> (of_char c :: nat) \<and> (of_char c :: nat) \<noteq> 173))"

definition hex_chars :: string where
  "hex_chars = ''0123456789abcdef''"

definition hex2 :: "char \<Rightarrow> string" where
  \<comment> \<open>The two hexadecimal digits of a code point below 256.\<close>
  "hex2 c = [hex_chars ! ((of_char c div 16) mod 16), hex_chars ! (of_char c mod 16)]"

definition repr_char :: "char \<Rightarrow> char \<Rightarrow> string" where
  \<comment> \<open>One character inside \<^verbatim>\<open>repr\<close> of a string that is quoted with \<open>q\<close>: the quote and
      the backslash are escaped, tab, newline and carriage return are written
      \<^verbatim>\<open>\t\<close>, \<^verbatim>\<open>\n\<close>, \<^verbatim>\<open>\r\<close>, any other character that is not printable is written
      \<^verbatim>\<open>\xhh\<close>.\<close>
  "repr_char q c =
     (if c = q \<or> c = backslash then [backslash, c]
      else if c = CHR 0x09 then [backslash, CHR ''t'']
      else if c = CHR 0x0A then [backslash, CHR ''n'']
      else if c = CHR 0x0D then [backslash, CHR ''r'']
      else if printable c then [c]
      else [backslash, CHR ''x''] @ hex2 c)"

definition py_repr_str :: "string \<Rightarrow> string" where
  \<comment> \<open>\<^verbatim>\<open>repr\<close> of a string: in single quotes, unless the string holds a single quote and
      no double quote.\<close>
  "py_repr_str s =
     (let q = (if squote \<in> set s \<and> dquote \<notin> set s then dquote else squote)
      in [q] @ concat (map (repr_char q) s) @ [q])"

fun py_join :: "string \<Rightarrow> string list \<Rightarrow> string" where
  "py_join sep [] = []"
| "py_join sep [x] = x"
| "py_join sep (x # y # ys) = x @ sep @ py_join sep (y # ys)"

definition py_repr_list :: "string list \<Rightarrow> string" where
  "py_repr_list xs = ''['' @ py_join '', '' (map py_repr_str xs) @ '']''"

definition py_repr_dict :: "(string \<times> string list) list \<Rightarrow> string" where
  "py_repr_dict kvs =
     ''{'' @ py_join '', '' (map (\<lambda>(k, v). py_repr_str k @ '': '' @ py_repr_list v) kvs) @ ''}''"

section \<open>Exceptions\<close>

text \<open>
  Django's \<^verbatim>\<open>ValidationError\<close> has two shapes. Built from one message
  (\<^verbatim>\<open>ValidationError("...")\<close>, which is also what \<^verbatim>\<open>validate_email\<close> raises) it carries
  an \<^verbatim>\<open>error_list\<close>; built from a dictionary (what \<^verbatim>\<open>Model.full_clean\<close> raises) it
  carries an \<^verbatim>\<open>error_dict\<close>. Its property \<^verbatim>\<open>message_dict\<close> starts with
  \<^verbatim>\<open>getattr(self, "error_dict")\<close>, so on the first shape it raises \<^verbatim>\<open>AttributeError\<close>.
  \<^verbatim>\<open>str(e)\<close> is \<^verbatim>\<open>repr(dict(e))\<close> for the second shape and \<^verbatim>\<open>repr(list(e))\<close> for the
  first.
\<close>

datatype validation_error =
    Plain string
  | ErrorDict "(string \<times> string list) list"

datatype exn =
    ValidationError validation_error
  | IntegrityError string
  | AttributeError string
  | TypeError string
  | IndexError string
  | ValueError string
  | OperationalError string

definition no_error_dict :: string where
  "no_error_dict = [squote] @ ''ValidationError'' @ [squote] @ '' object has no attribute ''
     @ [squote] @ ''error_dict'' @ [squote]"

definition list_index_out_of_range :: string where
  "list_index_out_of_range = ''list index out of range''"

fun message_dict :: "validation_error \<Rightarrow> exn + (string \<times> string list) list" where
  "message_dict (Plain m) = Inl (AttributeError no_error_dict)"
| "message_dict (ErrorDict d) = Inr d"

fun py_str :: "exn \<Rightarrow> string" where
  "py_str (ValidationError (Plain m)) = py_repr_list [m]"
| "py_str (ValidationError (ErrorDict d)) = py_repr_dict d"
| "py_str (IntegrityError m) = m"
| "py_str (AttributeError m) = m"
| "py_str (TypeError m) = m"
| "py_str (IndexError m) = m"
| "py_str (ValueError m) = m"
| "py_str (OperationalError m) = m"

definition first_item :: "'a list \<Rightarrow> exn + 'a" where
  \<comment> \<open>\<^verbatim>\<open>list(...)[0]\<close>: \<^verbatim>\<open>IndexError\<close> on the empty list.\<close>
  "first_item xs = (case xs of [] \<Rightarrow> Inl (IndexError list_index_out_of_range) | x # _ \<Rightarrow> Inr x)"

section \<open>The phone pattern\<close>

text \<open>
  \<^verbatim>\<open>re.match(r'^\+?\d{3}[-.\s]?\d{3}[-.\s]?\d{4}$', phone)\<close>. Each optional item is followed
  by a digit, and neither \<^verbatim>\<open>+\<close> nor a separator is a digit, so an optional item that is
  present has to be taken: the match is decided by one pass from the left. \<^verbatim>\<open>$\<close> matches
  at the end of the string and before a newline that ends it. \<^verbatim>\<open>\s\<close> is Unicode
  white space; below code point 256 that is the twelve characters listed.
\<close>

definition is_digit :: "char \<Rightarrow> bool" where
  "is_digit c = (c \<in> set digit_chars)"

definition space_chars :: string where
  "space_chars = [CHR 0x09, CHR 0x0A, CHR 0x0B, CHR 0x0C, CHR 0x0D, CHR 0x1C, CHR 0x1D,
     CHR 0x1E, CHR 0x1F, CHR 0x20, CHR 0x85, CHR 0xA0]"

definition is_sep :: "char \<Rightarrow> bool" where
  "is_sep c = (c = CHR ''-'' \<or> c = CHR ''.'' \<or> c \<in> set space_chars)"

fun opt_char :: "(char \<Rightarrow> bool) \<Rightarrow> string \<Rightarrow> string" where
  "opt_char p [] = []"
| "opt_char p (c # cs) = (if p c then cs else c # cs)"

definition digits :: "nat \<Rightarrow> string \<Rightarrow> string option" where
  "digits n s = (if n \<le> length s \<and> list_all is_digit (take n s) then Some (drop n s) else None)"

definition phone_regex_match :: "string \<Rightarrow> bool" where
  "phone_regex_match s =
     (case digits 3 (opt_char (\<lambda>c. c = CHR ''+'') s) of
        None \<Rightarrow> False
      | Some s1 \<Rightarrow>
          (case digits 3 (opt_char is_sep s1) of
             None \<Rightarrow> False
           | Some s2 \<Rightarrow>
               (case digits 4 (opt_char is_sep s2) of
                  None \<Rightarrow> False
                | Some s3 \<Rightarrow> s3 = [] \<or> s3 = [CHR 0x0A])))"

section \<open>Ids\<close>

text \<open>
  \<^verbatim>\<open>customer_id\<close> and \<^verbatim>\<open>product_ids\<close> are \<^verbatim>\<open>graphene.ID\<close> values: strings, passed as
  they come to \<^verbatim>\<open>objects.get(pk=...)\<close>. The primary key is Django's default integer
  \<^verbatim>\<open>id\<close>, so the lookup converts the string with \<^verbatim>\<open>int(value)\<close> and, where that raises
  \<^verbatim>\<open>ValueError\<close>, raises \<^verbatim>\<open>ValueError\<close> with the text
  \<^verbatim>\<open>"Field 'id' expected a number but got %r." % value\<close>.

  \<^verbatim>\<open>int\<close> of a string: white space around the number is skipped (tab, newline, vertical
  tab, form feed, carriage return, space and, below code point 256, the two non-ASCII
  spaces 133 and 160); then an optional sign; then decimal digits, where single underscores
  may stand between digits; at most 4300 digits.

  An integer that is the key of no row selects no row, whatever its size: the lookup
  answers a number outside the range of the key column like any other number that no
  row has.
\<close>

definition int_space_chars :: string where
  "int_space_chars = [CHR 0x09, CHR 0x0A, CHR 0x0B, CHR 0x0C, CHR 0x0D, CHR 0x20, CHR 0x85,
     CHR 0xA0]"

definition is_int_space :: "char \<Rightarrow> bool" where
  "is_int_space c = (c \<in> set int_space_chars)"

definition py_strip :: "string \<Rightarrow> string" where
  "py_strip s = rev (dropWhile is_int_space (rev (dropWhile is_int_space s)))"

fun no_double_underscore :: "string \<Rightarrow> bool" where
  "no_double_underscore (a # b # cs) =
     (\<not> (a = CHR ''_'' \<and> b = CHR ''_'') \<and> no_double_underscore (b # cs))"
| "no_double_underscore cs = True"

definition valid_numeral :: "string \<Rightarrow> bool" where
  "valid_numeral u =
     (u \<noteq> [] \<and> is_digit (hd u) \<and> is_digit (last u)
      \<and> list_all (\<lambda>c. is_digit c \<or> c = CHR ''_'') u
      \<and> no_double_underscore u
      \<and> length (filter is_digit u) \<le> 4300)"

definition digit_value :: "char \<Rightarrow> int" where
  "digit_value c = int (of_char c) - 48"

definition numeral_value :: "string \<Rightarrow> int" where
  "numeral_value u = fold (\<lambda>c acc. 10 * acc + digit_value c) (filter is_digit u) 0"

definition py_int :: "string \<Rightarrow> int option" where
  \<comment> \<open>\<^verbatim>\<open>int(s)\<close>; \<open>None\<close> stands for \<^verbatim>\<open>ValueError\<close>.\<close>
  "py_int s =
     (case py_strip s of
        c # u \<Rightarrow>
          (if c = CHR ''-'' then (if valid_numeral u then Some (- numeral_value u) else None)
           else if c = CHR ''+'' then (if valid_numeral u then Some (numeral_value u) else None)
           else if valid_numeral (c # u) then Some (numeral_value (c # u)) else None)
      | [] \<Rightarrow> None)"

definition not_a_number :: "string \<Rightarrow> string" where
  \<comment> \<open>\<^verbatim>\<open>"Field 'id' expected a number but got %r." % value\<close>\<close>
  "not_a_number s =
     ''Field '' @ [squote] @ ''id'' @ [squote] @ '' expected a number but got ''
       @ py_repr_str s @ ''.''"

section \<open>The stored data\<close>

text \<open>
  \<^verbatim>\<open>crm/models.py\<close> is not among the sources. Rows carry the fields that the schema and
  the specification name (section 3, Data model); the primary key is the number the
  storage engine assigns.
  \<^verbatim>\<open>Order.order_date\<close> is left out: no mutation reads or writes it.

  A mutation receives the store and returns it updated. The body of a \<^verbatim>\<open>try\<close> block
  returns the store as it is where the body ends, by \<^verbatim>\<open>return\<close> or by an exception.
\<close>

record customer_row =
  c_id :: nat
  c_name :: string
  c_email :: string
  c_phone :: string

record product_row =
  p_id :: nat
  p_name :: string
  p_price :: rat
  p_stock :: int

record order_row =
  o_id :: nat
  o_customer :: nat
  o_products :: "nat list"
  o_total_amount :: rat

record db =
  customers :: "customer_row list"
  products :: "product_row list"
  orders :: "order_row list"

definition empty_db :: db where
  "empty_db = \<lparr>customers = [], products = [], orders = []\<rparr>"

definition fresh_id :: "nat list \<Rightarrow> nat" where
  \<comment> \<open>The key of a new row: one more than the largest key in the table, 1 in an empty table.\<close>
  "fresh_id ks = Suc (fold max ks 0)"

definition Customer_get :: "db \<Rightarrow> string \<Rightarrow> exn + customer_row option" where
  \<comment> \<open>\<^verbatim>\<open>Customer.objects.get(pk=s)\<close>: \<open>Inl\<close> is the \<^verbatim>\<open>ValueError\<close> of an id that is no
      number, \<open>Inr None\<close> stands for \<^verbatim>\<open>Customer.DoesNotExist\<close> (an integer that is the key
      of no row selects no row).\<close>
  "Customer_get d s =
     (case py_int s of
        None \<Rightarrow> Inl (ValueError (not_a_number s))
      | Some i \<Rightarrow> Inr (find (\<lambda>c. int (c_id c) = i) (customers d)))"

definition Product_get :: "db \<Rightarrow> string \<Rightarrow> exn + product_row option" where
  \<comment> \<open>\<^verbatim>\<open>Product.objects.get(pk=s)\<close>, in the same way; \<open>Inr None\<close> stands for
      \<^verbatim>\<open>Product.DoesNotExist\<close>.\<close>
  "Product_get d s =
     (case py_int s of
        None \<Rightarrow> Inl (ValueError (not_a_number s))
      | Some i \<Rightarrow> Inr (find (\<lambda>p. int (p_id p) = i) (products d)))"

definition email_taken :: "db \<Rightarrow> string \<Rightarrow> bool" where
  "email_taken d e = list_ex (\<lambda>c. c_email c = e) (customers d)"

definition Customer_full_clean :: "db \<Rightarrow> string \<Rightarrow> string \<Rightarrow> string \<Rightarrow> validation_error option" where
  \<comment> \<open>Modelled from the spec: \<^verbatim>\<open>Customer.full_clean\<close> of the missing \<^verbatim>\<open>crm/models.py\<close>.
      "Customer.email is globally unique" (section 3): Django's \<^verbatim>\<open>validate_unique\<close>, a
      part of \<^verbatim>\<open>full_clean\<close>, reports a value already stored as a dictionary-shaped
      error under the field's name. The formats of email and phone (section 4.1) were
      checked by the mutation before; the spec puts no constraint on the name.\<close>
  "Customer_full_clean d name email phone =
     (if email_taken d email
      then Some (ErrorDict [(''email'', [''Customer with this Email already exists.''])])
      else None)"

definition Customer_save :: "db \<Rightarrow> string \<Rightarrow> string \<Rightarrow> string \<Rightarrow> (exn + customer_row) \<times> db" where
  \<comment> \<open>Modelled from the spec: \<^verbatim>\<open>Customer.save\<close> of the missing \<^verbatim>\<open>crm/models.py\<close>. The
      row is inserted under a fresh key; the unique column refuses a second row with the
      same email (\<^verbatim>\<open>IntegrityError\<close>, "DuplicateEmail" in section 4.2; the text is the one
      SQLite gives).\<close>
  "Customer_save d name email phone =
     (if email_taken d email
      then (Inl (IntegrityError ''UNIQUE constraint failed: crm_customer.email''), d)
      else (let c = \<lparr>c_id = fresh_id (map c_id (customers d)), c_name = name,
                      c_email = email, c_phone = phone\<rparr>
            in (Inr c, d\<lparr>customers := customers d @ [c]\<rparr>)))"

section \<open>Inputs and results of the mutations\<close>

record customer_input =
  ci_name :: string
  ci_email :: string
  ci_phone :: "string option"

record product_input =
  pi_name :: string
  pi_price :: rat
  pi_stock :: "int option"

record order_input =
  oi_customer_id :: string
  oi_product_ids :: "string list"

record error_type =
  et_field :: string
  et_messages :: "string list"

text \<open>
  \<^verbatim>\<open>ErrorType\<close> is a graphene \<^verbatim>\<open>ObjectType\<close> with the fields \<^verbatim>\<open>field\<close> and
  \<^verbatim>\<open>messages\<close>. The constructor of an \<^verbatim>\<open>ObjectType\<close> takes its declared fields as
  keyword arguments and raises \<^verbatim>\<open>TypeError\<close> on any other keyword. The third argument
  lists the keywords of a call that are not declared fields.
\<close>

definition unexpected_keyword :: "string \<Rightarrow> string" where
  \<comment> \<open>The text of the \<^verbatim>\<open>TypeError\<close>; its wording differs between releases of Python and
      graphene, and no clause of the mutations reads it.\<close>
  "unexpected_keyword k =
     ''__init__() got an unexpected keyword argument '' @ [squote] @ k @ [squote]"

definition ErrorType_init :: "string \<Rightarrow> string list \<Rightarrow> string list \<Rightarrow> exn + error_type" where
  "ErrorType_init f ms other =
     (case other of
        [] \<Rightarrow> Inr \<lparr>et_field = f, et_messages = ms\<rparr>
      | k # _ \<Rightarrow> Inl (TypeError (unexpected_keyword k)))"

text \<open>
  A field of a mutation's result that the constructor call does not set is \<open>None\<close>
  (GraphQL \<^verbatim>\<open>null\<close>).
\<close>

record create_customer =
  cc_customer :: "customer_row option"
  cc_errors :: "error_type option"
  cc_success :: "bool option"

record bulk_create_customers =
  bc_customers :: "customer_row list"
  bc_errors :: "error_type list"
  bc_success :: bool

record create_product =
  cp_product :: "product_row option"
  cp_errors :: "error_type option"
  cp_success :: "bool option"

record create_order =
  co_order :: "order_row option"
  co_errors :: "error_type option"
  co_success :: "bool option"

section \<open>CreateCustomer and BulkCreateCustomers\<close>

text \<open>
  \<^verbatim>\<open>validate_email\<close> is Django's validator, not code of this repository: the mutations
  take it as the parameter \<open>ve\<close>, true where the validator accepts the address. Where it
  rejects, it raises \<^verbatim>\<open>ValidationError("Enter a valid email address.", ...)\<close>, built from
  one message.
\<close>

definition phone_given :: "customer_input \<Rightarrow> bool" where
  \<comment> \<open>\<^verbatim>\<open>if input.phone:\<close> is false for a missing phone and for the empty string.\<close>
  "phone_given inp = (case ci_phone inp of None \<Rightarrow> False | Some p \<Rightarrow> p \<noteq> [])"

definition phone_or_empty :: "customer_input \<Rightarrow> string" where
  \<comment> \<open>\<^verbatim>\<open>input.phone or ""\<close>\<close>
  "phone_or_empty inp = (case ci_phone inp of None \<Rightarrow> [] | Some p \<Rightarrow> p)"

definition customer_try :: "(string \<Rightarrow> bool) \<Rightarrow> string \<Rightarrow> db \<Rightarrow> customer_input \<Rightarrow> (exn + customer_row) \<times> db" where
  \<comment> \<open>The body of the \<^verbatim>\<open>try\<close> block, the same in both mutations but for the text of the
      phone error, \<open>phone_msg\<close>.\<close>
  "customer_try ve phone_msg d inp =
     (if phone_given inp \<and> \<not> phone_regex_match (phone_or_empty inp)
      then (Inl (ValidationError (Plain phone_msg)), d)
      else if \<not> ve (ci_email inp)
      then (Inl (ValidationError (Plain ''Enter a valid email address.'')), d)
      else (case Customer_full_clean d (ci_name inp) (ci_email inp) (phone_or_empty inp) of
              Some e \<Rightarrow> (Inl (ValidationError e), d)
            | None \<Rightarrow> Customer_save d (ci_name inp) (ci_email inp) (phone_or_empty inp)))"

definition CreateCustomer_phone_msg :: string where
  "CreateCustomer_phone_msg = ''Phone number must be in format: '' @ [squote] @ ''+1234567890''
     @ [squote] @ '' or '' @ [squote] @ ''123-456-7890'' @ [squote]"

definition CreateCustomer_on_ValidationError :: "validation_error \<Rightarrow> exn + create_customer" where
  \<comment> \<open>Lines 81 to 88. The arguments are evaluated in order, \<^verbatim>\<open>e.message_dict\<close> first;
      \<^verbatim>\<open>success=False\<close> is passed to \<^verbatim>\<open>ErrorType\<close>, not to \<^verbatim>\<open>CreateCustomer\<close>.\<close>
  "CreateCustomer_on_ValidationError e =
     (case message_dict e of
        Inl x \<Rightarrow> Inl x
      | Inr md \<Rightarrow>
          (case first_item (map fst md) of
             Inl x \<Rightarrow> Inl x
           | Inr f \<Rightarrow>
               (case first_item (map snd md) of
                  Inl x \<Rightarrow> Inl x
                | Inr ms \<Rightarrow>
                    (case ErrorType_init f ms [''success''] of
                       Inl x \<Rightarrow> Inl x
                     | Inr et \<Rightarrow>
                         Inr \<lparr>cc_customer = None, cc_errors = Some et, cc_success = None\<rparr>))))"

definition CreateCustomer_mutate :: "(string \<Rightarrow> bool) \<Rightarrow> db \<Rightarrow> customer_input \<Rightarrow> (exn + create_customer) \<times> db" where
  \<comment> \<open>\<open>Inl\<close> is an exception that leaves \<^verbatim>\<open>mutate\<close>: one raised inside an \<^verbatim>\<open>except\<close>
      clause is not caught by the clauses beside it.\<close>
  "CreateCustomer_mutate ve d inp =
     (case customer_try ve CreateCustomer_phone_msg d inp of
        (Inr customer, d') \<Rightarrow>
          (Inr \<lparr>cc_customer = Some customer, cc_errors = None, cc_success = Some True\<rparr>, d')
      | (Inl (ValidationError e), d') \<Rightarrow> (CreateCustomer_on_ValidationError e, d')
      | (Inl (IntegrityError m), d') \<Rightarrow>
          (Inr \<lparr>cc_customer = None,
                cc_errors = Some \<lparr>et_field = ''email'', et_messages = [''Email already exists'']\<rparr>,
                cc_success = Some False\<rparr>, d')
      | (Inl e, d') \<Rightarrow>
          (Inr \<lparr>cc_customer = None,
                cc_errors = Some \<lparr>et_field = ''non_field_errors'', et_messages = [py_str e]\<rparr>,
                cc_success = Some False\<rparr>, d'))"

record bulk_acc =
  ba_db :: db
  ba_customers :: "customer_row list"
  ba_errors :: "error_type list"
  ba_success :: bool

definition bulk_error_field :: "exn \<Rightarrow> string" where
  "bulk_error_field e =
     (if py_in ''email'' (py_lower (py_str e)) then ''email''
      else if py_in ''phone'' (py_lower (py_str e)) then ''phone''
      else ''row'')"

definition bulk_error_msg :: "exn \<Rightarrow> exn + string" where
  \<comment> \<open>Lines 137 to 139: \<^verbatim>\<open>list(e.message_dict.values())[0][0]\<close> for a
      \<^verbatim>\<open>ValidationError\<close>, \<^verbatim>\<open>str(e)\<close> otherwise.\<close>
  "bulk_error_msg e =
     (case e of
        ValidationError v \<Rightarrow>
          (case message_dict v of
             Inl x \<Rightarrow> Inl x
           | Inr md \<Rightarrow>
               (case first_item (map snd md) of
                  Inl x \<Rightarrow> Inl x
                | Inr ms \<Rightarrow> first_item ms))
      | _ \<Rightarrow> Inr (py_str e))"

definition bulk_except :: "nat \<Rightarrow> exn \<Rightarrow> exn + error_type" where
  \<comment> \<open>The \<^verbatim>\<open>except Exception as e\<close> clause of the loop, up to the error it appends.\<close>
  "bulk_except idx e =
     (case bulk_error_msg e of
        Inl x \<Rightarrow> Inl x
      | Inr error_msg \<Rightarrow>
          Inr \<lparr>et_field = bulk_error_field e @ '' (row '' @ str_nat (idx + 1) @ '')'',
               et_messages = [error_msg]\<rparr>)"

definition bulk_row :: "(string \<Rightarrow> bool) \<Rightarrow> nat \<Rightarrow> customer_input \<Rightarrow> bulk_acc \<Rightarrow> exn + bulk_acc" where
  "bulk_row ve idx inp acc =
     (case customer_try ve ''Invalid phone format'' (ba_db acc) inp of
        (Inr customer, d') \<Rightarrow>
          Inr (acc\<lparr>ba_db := d', ba_customers := ba_customers acc @ [customer]\<rparr>)
      | (Inl e, d') \<Rightarrow>
          (case bulk_except idx e of
             Inl x \<Rightarrow> Inl x
           | Inr err \<Rightarrow>
               Inr (acc\<lparr>ba_db := d', ba_errors := ba_errors acc @ [err], ba_success := False\<rparr>)))"

fun bulk_loop :: "(string \<Rightarrow> bool) \<Rightarrow> nat \<Rightarrow> customer_input list \<Rightarrow> bulk_acc \<Rightarrow> exn + bulk_acc" where
  \<comment> \<open>\<^verbatim>\<open>for idx, input in enumerate(inputs)\<close>, from index \<open>idx\<close> on.\<close>
  "bulk_loop ve idx [] acc = Inr acc"
| "bulk_loop ve idx (inp # rest) acc =
     (case bulk_row ve idx inp acc of
        Inl x \<Rightarrow> Inl x
      | Inr acc' \<Rightarrow> bulk_loop ve (Suc idx) rest acc')"

definition BulkCreateCustomers_mutate :: "(string \<Rightarrow> bool) \<Rightarrow> db \<Rightarrow> customer_input list \<Rightarrow> (exn + bulk_create_customers) \<times> db" where
  \<comment> \<open>\<^verbatim>\<open>@transaction.atomic\<close>: an exception that leaves \<^verbatim>\<open>mutate\<close> rolls the store back to
      what it was at the call; a normal return commits.\<close>
  "BulkCreateCustomers_mutate ve d inputs =
     (case bulk_loop ve 0 inputs
             \<lparr>ba_db = d, ba_customers = [], ba_errors = [], ba_success = True\<rparr> of
        Inl x \<Rightarrow> (Inl x, d)
      | Inr acc \<Rightarrow>
          (Inr \<lparr>bc_customers = ba_customers acc, bc_errors = ba_errors acc,
                bc_success = ba_success acc\<rparr>, ba_db acc))"

section \<open>CreateProduct\<close>

definition float_le_zero :: "rat \<Rightarrow> bool" where
  \<comment> \<open>\<^verbatim>\<open>float(input.price) <= 0\<close> for a finite decimal. The conversion rounds to the nearest
      double, ties to even: it keeps the sign, and a positive value becomes \<^verbatim>\<open>0.0\<close> exactly
      when it is at most half the smallest positive double, that is at most 2 to the power
      -1075.\<close>
  "float_le_zero x = (x \<le> 1 / 2 ^ 1075)"

definition stock_given :: "product_input \<Rightarrow> bool" where
  \<comment> \<open>\<^verbatim>\<open>input.stock\<close> as a condition is false for a missing stock and for 0.\<close>
  "stock_given inp = (case pi_stock inp of None \<Rightarrow> False | Some s \<Rightarrow> s \<noteq> 0)"

definition stock_or_zero :: "product_input \<Rightarrow> int" where
  \<comment> \<open>\<^verbatim>\<open>input.stock or 0\<close>\<close>
  "stock_or_zero inp = (case pi_stock inp of None \<Rightarrow> 0 | Some s \<Rightarrow> s)"

definition Product_full_clean :: "string \<Rightarrow> rat \<Rightarrow> int \<Rightarrow> validation_error option" where
  \<comment> \<open>Modelled from the spec: \<^verbatim>\<open>Product.full_clean\<close> of the missing \<^verbatim>\<open>crm/models.py\<close>.
      "Product.price > 0; Product.stock >= 0" (section 3), reported as a dictionary-shaped
      error under the names of the fields, in the order of the fields.\<close>
  "Product_full_clean name price stock =
     (let errs = (if price \<le> 0 then [(''price'', [''Ensure this value is greater than 0.''])] else [])
              @ (if stock < 0
                 then [(''stock'', [''Ensure this value is greater than or equal to 0.''])]
                 else [])
      in if errs = [] then None else Some (ErrorDict errs))"

definition Product_save :: "db \<Rightarrow> string \<Rightarrow> rat \<Rightarrow> int \<Rightarrow> product_row \<times> db" where
  \<comment> \<open>Modelled from the spec: \<^verbatim>\<open>Product.save\<close> of the missing \<^verbatim>\<open>crm/models.py\<close>: the row is
      inserted under a fresh key.\<close>
  "Product_save d name price stock =
     (let p = \<lparr>p_id = fresh_id (map p_id (products d)), p_name = name, p_price = price,
                p_stock = stock\<rparr>
      in (p, d\<lparr>products := products d @ [p]\<rparr>))"

definition CreateProduct_try :: "db \<Rightarrow> product_input \<Rightarrow> (exn + product_row) \<times> db" where
  "CreateProduct_try d inp =
     (if float_le_zero (pi_price inp)
      then (Inl (ValidationError (Plain ''Price must be positive'')), d)
      else if stock_given inp \<and> stock_or_zero inp < 0
      then (Inl (ValidationError (Plain ''Stock cannot be negative'')), d)
      else (case Product_full_clean (pi_name inp) (pi_price inp) (stock_or_zero inp) of
              Some e \<Rightarrow> (Inl (ValidationError e), d)
            | None \<Rightarrow>
                (let (product, d') = Product_save d (pi_name inp) (pi_price inp) (stock_or_zero inp)
                 in (Inr product, d'))))"

definition product_error_field :: "exn \<Rightarrow> string" where
  "product_error_field e =
     (if py_in ''price'' (py_lower (py_str e)) then ''price''
      else if py_in ''stock'' (py_lower (py_str e)) then ''stock''
      else ''non_field_errors'')"

definition CreateProduct_mutate :: "db \<Rightarrow> product_input \<Rightarrow> create_product \<times> db" where
  \<comment> \<open>\<^verbatim>\<open>except Exception\<close> catches whatever the body raises, and the clause itself raises
      nothing: \<^verbatim>\<open>mutate\<close> always returns a result.\<close>
  "CreateProduct_mutate d inp =
     (case CreateProduct_try d inp of
        (Inr product, d') \<Rightarrow>
          (\<lparr>cp_product = Some product, cp_errors = None, cp_success = Some True\<rparr>, d')
      | (Inl e, d') \<Rightarrow>
          (\<lparr>cp_product = None,
            cp_errors = Some \<lparr>et_field = product_error_field e, et_messages = [py_str e]\<rparr>,
            cp_success = Some False\<rparr>, d'))"

section \<open>CreateOrder\<close>

text \<open>
  The three writes of the mutation, \<^verbatim>\<open>Order.objects.create\<close>, \<^verbatim>\<open>order.products.set\<close> and
  \<^verbatim>\<open>order.save\<close>, go through Django's ORM, and each may fail in the store. The argument
  \<open>f\<close> says which do: \<open>f w = Some e\<close> makes the write \<open>w\<close> raise \<open>e\<close> and change nothing
  (what a failing write has changed before it fails is undone with the rest, below).

  Django runs each of these writes inside a block that marks the open transaction for
  rollback when an exception leaves the block: \<^verbatim>\<open>Model.save_base\<close> under
  \<^verbatim>\<open>transaction.mark_for_rollback_on_error\<close>, the related manager's \<^verbatim>\<open>set\<close> under
  \<^verbatim>\<open>transaction.atomic(savepoint=False)\<close>; both set \<^verbatim>\<open>connection.needs_rollback\<close>. On
  leaving \<^verbatim>\<open>@transaction.atomic\<close> by a normal return, \<^verbatim>\<open>Atomic.__exit__\<close> commits unless
  the transaction is so marked, and rolls back if it is. The body of the \<^verbatim>\<open>try\<close> block
  returns, after its result and the store, whether the transaction is marked.
\<close>

datatype order_write = Create_order | Set_products | Save_order

definition no_faults :: "order_write \<Rightarrow> exn option" where
  \<comment> \<open>No write fails.\<close>
  "no_faults w = None"

definition write_order :: "db \<Rightarrow> order_row \<Rightarrow> db" where
  \<comment> \<open>Store the row in place of the row that has its key.\<close>
  "write_order d o' = d\<lparr>orders := map (\<lambda>r. if o_id r = o_id o' then o' else r) (orders d)\<rparr>"

definition linked_products :: "db \<Rightarrow> order_row \<Rightarrow> product_row list" where
  \<comment> \<open>\<^verbatim>\<open>order.products.all()\<close>: the stored products the order is linked to.\<close>
  "linked_products d o' = filter (\<lambda>p. p_id p \<in> set (o_products o')) (products d)"

definition Order_create :: "(order_write \<Rightarrow> exn option) \<Rightarrow> db \<Rightarrow> customer_row \<Rightarrow> (exn + order_row) \<times> db" where
  \<comment> \<open>Modelled from the spec: \<^verbatim>\<open>Order.objects.create(customer=customer)\<close> on the \<^verbatim>\<open>Order\<close>
      of the missing \<^verbatim>\<open>crm/models.py\<close>: a row under a fresh key, referring to the customer,
      linked to no product yet, its total the sum over no product.\<close>
  "Order_create f d customer =
     (case f Create_order of
        Some e \<Rightarrow> (Inl e, d)
      | None \<Rightarrow>
          (let o' = \<lparr>o_id = fresh_id (map o_id (orders d)), o_customer = c_id customer,
                      o_products = [], o_total_amount = 0\<rparr>
           in (Inr o', d\<lparr>orders := orders d @ [o']\<rparr>)))"

definition Order_products_set :: "(order_write \<Rightarrow> exn option) \<Rightarrow> db \<Rightarrow> order_row \<Rightarrow> product_row list \<Rightarrow> (exn + order_row) \<times> db" where
  \<comment> \<open>Modelled from the spec: \<^verbatim>\<open>order.products.set(products)\<close>; "products (set of
      references to Product)" (section 3): the links become the given products, each once.\<close>
  "Order_products_set f d o' ps =
     (case f Set_products of
        Some e \<Rightarrow> (Inl e, d)
      | None \<Rightarrow>
          (let o'' = o'\<lparr>o_products := remdups (map p_id ps)\<rparr> in (Inr o'', write_order d o'')))"

definition Order_save :: "(order_write \<Rightarrow> exn option) \<Rightarrow> db \<Rightarrow> order_row \<Rightarrow> (exn + order_row) \<times> db" where
  \<comment> \<open>Modelled from the spec: \<^verbatim>\<open>Order.save\<close> of the missing \<^verbatim>\<open>crm/models.py\<close>;
      "total_amount (decimal, derived = sum of linked product prices at save time)"
      (section 3).\<close>
  "Order_save f d o' =
     (case f Save_order of
        Some e \<Rightarrow> (Inl e, d)
      | None \<Rightarrow>
          (let o'' = o'\<lparr>o_total_amount := sum_list (map p_price (linked_products d o'))\<rparr>
           in (Inr o'', write_order d o'')))"

definition product_missing_msg :: "string \<Rightarrow> string" where
  \<comment> \<open>\<^verbatim>\<open>f"Product with ID {product_id} does not exist"\<close>: the id as it was given.\<close>
  "product_missing_msg k = ''Product with ID '' @ k @ '' does not exist''"

fun resolve_products :: "db \<Rightarrow> string list \<Rightarrow> exn + product_row list" where
  \<comment> \<open>The loop of lines 210 to 216: the products in the order of the ids, or the exception
      of the first id that is no number or that no product has.\<close>
  "resolve_products d [] = Inr []"
| "resolve_products d (k # ks) =
     (case Product_get d k of
        Inl e \<Rightarrow> Inl e
      | Inr None \<Rightarrow> Inl (ValidationError (Plain (product_missing_msg k)))
      | Inr (Some p) \<Rightarrow>
          (case resolve_products d ks of
             Inl e \<Rightarrow> Inl e
           | Inr ps \<Rightarrow> Inr (p # ps)))"

definition CreateOrder_writes :: "(order_write \<Rightarrow> exn option) \<Rightarrow> db \<Rightarrow> customer_row \<Rightarrow> product_row list \<Rightarrow> (exn + order_row) \<times> db \<times> bool" where
  \<comment> \<open>Lines 222 to 224. A write that fails leaves the transaction marked.\<close>
  "CreateOrder_writes f d customer ps =
     (case Order_create f d customer of
        (Inl e, d1) \<Rightarrow> (Inl e, d1, True)
      | (Inr o1, d1) \<Rightarrow>
          (case Order_products_set f d1 o1 ps of
             (Inl e, d2) \<Rightarrow> (Inl e, d2, True)
           | (Inr o2, d2) \<Rightarrow>
               (case Order_save f d2 o2 of
                  (Inl e, d3) \<Rightarrow> (Inl e, d3, True)
                | (Inr o3, d3) \<Rightarrow> (Inr o3, d3, False))))"

definition CreateOrder_try :: "(order_write \<Rightarrow> exn option) \<Rightarrow> db \<Rightarrow> order_input \<Rightarrow> (exn + order_row) \<times> db \<times> bool" where
  \<comment> \<open>Lines 203 to 226. Line 206 catches \<^verbatim>\<open>Customer.DoesNotExist\<close> only and line 215
      \<^verbatim>\<open>Product.DoesNotExist\<close> only: the \<^verbatim>\<open>ValueError\<close> of an id that is no number goes on
      to line 228.\<close>
  "CreateOrder_try f d inp =
     (case Customer_get d (oi_customer_id inp) of
        Inl e \<Rightarrow> (Inl e, d, False)
      | Inr None \<Rightarrow> (Inl (ValidationError (Plain ''Customer does not exist'')), d, False)
      | Inr (Some customer) \<Rightarrow>
          (case resolve_products d (oi_product_ids inp) of
             Inl e \<Rightarrow> (Inl e, d, False)
           | Inr ps \<Rightarrow>
               if ps = []
               then (Inl (ValidationError (Plain ''At least one product must be specified'')),
                     d, False)
               else CreateOrder_writes f d customer ps))"

definition order_error_field :: "exn \<Rightarrow> string" where
  "order_error_field e =
     (if py_in ''customer'' (py_lower (py_str e)) then ''customer_id''
      else if py_in ''product'' (py_lower (py_str e)) then ''product_ids''
      else ''non_field_errors'')"

definition order_failure :: "exn \<Rightarrow> create_order" where
  \<comment> \<open>Lines 229 to 235.\<close>
  "order_failure e =
     \<lparr>co_order = None,
      co_errors = Some \<lparr>et_field = order_error_field e, et_messages = [py_str e]\<rparr>,
      co_success = Some False\<rparr>"

definition CreateOrder_mutate :: "(order_write \<Rightarrow> exn option) \<Rightarrow> db \<Rightarrow> order_input \<Rightarrow> create_order \<times> db" where
  \<comment> \<open>\<^verbatim>\<open>except Exception\<close> catches every exception of the body inside \<^verbatim>\<open>mutate\<close>, so
      \<^verbatim>\<open>@transaction.atomic\<close> is left by a normal return: it commits the store as the body
      left it, unless the transaction is marked; then it rolls back to the store at the
      call.\<close>
  "CreateOrder_mutate f d inp =
     (case CreateOrder_try f d inp of
        (Inr order, d', marked) \<Rightarrow>
          (\<lparr>co_order = Some order, co_errors = None, co_success = Some True\<rparr>,
           if marked then d else d')
      | (Inl e, d', marked) \<Rightarrow> (order_failure e, if marked then d else d'))"

section \<open>Terms of the statements\<close>

definition bad_format :: "(string \<Rightarrow> bool) \<Rightarrow> customer_input \<Rightarrow> bool" where
  \<comment> \<open>The input violates a field constraint: a phone is given and does not match the
      pattern, or the validator rejects the email.\<close>
  "bad_format ve inp =
     ((phone_given inp \<and> \<not> phone_regex_match (phone_or_empty inp)) \<or> \<not> ve (ci_email inp))"

definition error_text :: "string \<Rightarrow> string" where
  \<comment> \<open>\<^verbatim>\<open>str(e)\<close> of a \<^verbatim>\<open>ValidationError\<close> built from the one message \<open>m\<close>, where
      \<open>m\<close> holds no quote and no backslash: \<^verbatim>\<open>['m']\<close>.\<close>
  "error_text m = ''['' @ [squote] @ m @ [squote] @ '']''"

definition order_errors :: "string \<Rightarrow> string \<Rightarrow> create_order" where
  \<comment> \<open>The result of a failed \<^verbatim>\<open>createOrder\<close>: one error with its field tag and its one
      message, \<^verbatim>\<open>success=False\<close>, no order.\<close>
  "order_errors f t =
     \<lparr>co_order = None, co_errors = Some \<lparr>et_field = f, et_messages = [t]\<rparr>,
      co_success = Some False\<rparr>"

definition product_errors :: "string \<Rightarrow> string \<Rightarrow> create_product" where
  \<comment> \<open>The result of a failed \<^verbatim>\<open>createProduct\<close>: one error with its field tag and its one
      message, \<^verbatim>\<open>success=False\<close>, no product.\<close>
  "product_errors f t =
     \<lparr>cp_product = None, cp_errors = Some \<lparr>et_field = f, et_messages = [t]\<rparr>,
      cp_success = Some False\<rparr>"

definition new_customer :: "db \<Rightarrow> customer_input \<Rightarrow> customer_row" where
  \<comment> \<open>The row that saving the input adds to the store.\<close>
  "new_customer d inp =
     \<lparr>c_id = fresh_id (map c_id (customers d)), c_name = ci_name inp, c_email = ci_email inp,
      c_phone = phone_or_empty inp\<rparr>"

definition spec_separator :: "string \<Rightarrow> bool" where
  \<comment> \<open>A separator of the specification's pattern: none, \<^verbatim>\<open>-\<close>, \<^verbatim>\<open>.\<close> or a space.\<close>
  "spec_separator s = (s = [] \<or> s = ''-'' \<or> s = ''.'' \<or> s = '' '')"

definition spec_phone :: "bool \<Rightarrow> string \<Rightarrow> string \<Rightarrow> string \<Rightarrow> string \<Rightarrow> string \<Rightarrow> string" where
  \<comment> \<open>The pattern in the words of the specification, \<^verbatim>\<open>+?DDD[sep]DDD[sep]DDDD\<close>: an
      optional \<^verbatim>\<open>+\<close>, then the three groups with their separators.\<close>
  "spec_phone lead a s1 b s2 c = (if lead then ''+'' else []) @ a @ s1 @ b @ s2 @ c"

definition numeric_id :: "string \<Rightarrow> bool" where
  \<comment> \<open>The id is a number: \<^verbatim>\<open>int\<close> accepts it.\<close>
  "numeric_id s = (py_int s \<noteq> None)"

definition unresolved :: "db \<Rightarrow> string list \<Rightarrow> string list" where
  \<comment> \<open>The ids that no stored product has, in the order of the input.\<close>
  "unresolved d ks = filter (\<lambda>k. Product_get d k = Inr None) ks"

definition id_chars :: "char set" where
  \<comment> \<open>The characters that an id accepted by \<^verbatim>\<open>int\<close> is made of.\<close>
  "id_chars = set int_space_chars \<union> set digit_chars \<union> {CHR ''_'', CHR ''+'', CHR ''-''}"

definition escape_chars :: "char set" where
  \<comment> \<open>The characters that \<^verbatim>\<open>repr\<close> may add to those of its string.\<close>
  "escape_chars = {squote, dquote, backslash, CHR ''t'', CHR ''n'', CHR ''r'', CHR ''x''}
     \<union> set hex_chars"

definition placed_order :: "db \<Rightarrow> customer_row \<Rightarrow> product_row list \<Rightarrow> order_row" where
  \<comment> \<open>The order that the three writes store for a customer and the resolved products.\<close>
  "placed_order d customer ps =
     \<lparr>o_id = fresh_id (map o_id (orders d)),
      o_customer = c_id customer,
      o_products = remdups (map p_id ps),
      o_total_amount =
        sum_list (map p_price (filter (\<lambda>p. p_id p \<in> set (map p_id ps)) (products d)))\<rparr>"

section \<open>Values for the examples\<close>

definition has_at_sign :: "string \<Rightarrow> bool" where
  \<comment> \<open>An instance of the validator parameter for the examples: the first test of Django's
      validator, which rejects an address that is empty, has no \<^verbatim>\<open>@\<close> or is longer than
      320 characters.\<close>
  "has_at_sign s = (s \<noteq> [] \<and> CHR ''@'' \<in> set s \<and> length s \<le> 320)"

definition alice :: customer_input where
  "alice = \<lparr>ci_name = ''Alice'', ci_email = ''alice@example.com'', ci_phone = None\<rparr>"

definition bob :: customer_input where
  "bob = \<lparr>ci_name = ''Bob'', ci_email = ''not-an-email'', ci_phone = None\<rparr>"

definition carol :: customer_input where
  "carol = \<lparr>ci_name = ''Carol'', ci_email = ''carol@example.com'',
             ci_phone = Some ''123-456-7890''\<rparr>"

definition alice_row :: customer_row where
  "alice_row = \<lparr>c_id = 1, c_name = ''Alice'', c_email = ''alice@example.com'', c_phone = []\<rparr>"

definition carol_row :: customer_row where
  "carol_row = \<lparr>c_id = 1, c_name = ''Carol'', c_email = ''carol@example.com'',
                 c_phone = ''123-456-7890''\<rparr>"

definition shop :: db where
  \<comment> \<open>One customer, and two products priced 10.00 and 15.50.\<close>
  "shop = \<lparr>customers = [alice_row],
            products = [\<lparr>p_id = 1, p_name = ''Pen'', p_price = 10, p_stock = 5\<rparr>,
                        \<lparr>p_id = 2, p_name = ''Ink'', p_price = 31 / 2, p_stock = 0\<rparr>],
            orders = []\<rparr>"

definition free_pen :: product_input where
  "free_pen = \<lparr>pi_name = ''Pen'', pi_price = 0, pi_stock = Some (- 1)\<rparr>"

definition order_12 :: order_input where
  \<comment> \<open>The customer 1 orders the products 1 and 2, the second id written \<^verbatim>\<open>02\<close>.\<close>
  "order_12 = \<lparr>oi_customer_id = ''1'', oi_product_ids = [''1'', ''02'']\<rparr>"

definition locked :: exn where
  \<comment> \<open>A failure of the store, for the examples.\<close>
  "locked = OperationalError ''database is locked''"

definition links_fail :: "order_write \<Rightarrow> exn option" where
  \<comment> \<open>The store refuses the links of an order, and nothing else.\<close>
  "links_fail w = (if w = Set_products then Some locked else None)"

section \<open>Facts about the strings\<close>

lemma py_in_set: "py_in xs ys \<Longrightarrow> set xs \<subseteq> set ys"
proof (induction ys)
  case Nil
  then show ?case by simp
next
  case (Cons c cs)
  from Cons.prems have "take (length xs) (c # cs) = xs \<or> py_in xs cs" by simp
  then show ?case
  proof
    assume "take (length xs) (c # cs) = xs"
    then have "set xs = set (take (length xs) (c # cs))" by simp
    then show ?thesis using set_take_subset by fastforce
  next
    assume "py_in xs cs"
    then show ?thesis using Cons.IH by auto
  qed
qed

lemma py_in_prefix: "py_in xs (xs @ ss)"
proof (cases "xs @ ss")
  case Nil
  then show ?thesis by simp
next
  case (Cons a l)
  have "take (length xs) (xs @ ss) = xs" by simp
  then have "take (length xs) (a # l) = xs" using Cons by simp
  then have "py_in xs (a # l)" by simp
  then show ?thesis using Cons by simp
qed

lemma py_in_append: "py_in xs (ps @ xs @ ss)"
  by (induction ps) (auto simp: py_in_prefix)

lemma digit_char_in: "digit_char n \<in> set digit_chars"
  unfolding digit_char_def by (rule nth_mem) (simp add: digit_chars_def)

lemma str_nat_digits: "set (str_nat n) \<subseteq> set digit_chars"
proof (induction n rule: str_nat.induct)
  case (1 n)
  show ?case
  proof (cases "n < 10")
    case True
    then show ?thesis using digit_char_in by (subst str_nat.simps) simp
  next
    case False
    then show ?thesis using 1 digit_char_in by (subst str_nat.simps) simp
  qed
qed

lemma lower_char_other:
  assumes "c \<notin> set upper_chars"
  shows "lower_char c = c"
proof -
  have "length upper_chars = length lower_chars"
    by (simp add: upper_chars_def lower_chars_def)
  then have "map_of (zip upper_chars lower_chars) c = None"
    using assms by (simp add: map_of_zip_is_None)
  then show ?thesis by (simp add: lower_char_def)
qed

lemma digit_not_upper: "c \<in> set digit_chars \<Longrightarrow> c \<notin> set upper_chars"
  by (auto simp: digit_chars_def upper_chars_def)

lemma lower_char_digit: "c \<in> set digit_chars \<Longrightarrow> lower_char c = c"
  by (simp add: lower_char_other digit_not_upper)

lemma py_lower_str_nat: "py_lower (str_nat n) = str_nat n"
proof -
  have "\<And>c. c \<in> set (str_nat n) \<Longrightarrow> lower_char c = c"
    using str_nat_digits lower_char_digit by blast
  then show ?thesis unfolding py_lower_def by (rule map_idI)
qed

lemma py_lower_append: "py_lower (xs @ ys) = py_lower xs @ py_lower ys"
  by (simp add: py_lower_def)

section \<open>Facts about the store\<close>

lemma fold_max_ge: "(a::nat) \<le> fold max ks a \<and> (\<forall>k \<in> set ks. k \<le> fold max ks a)"
proof (induction ks arbitrary: a)
  case Nil
  then show ?case by simp
next
  case (Cons x xs)
  have "max x a \<le> fold max xs (max x a)" using Cons.IH by blast
  moreover have "\<forall>k \<in> set xs. k \<le> fold max xs (max x a)" using Cons.IH by blast
  ultimately show ?case by auto
qed

lemma fresh_id_new: "fresh_id ks \<notin> set ks"
proof
  assume "fresh_id ks \<in> set ks"
  then have "fresh_id ks \<le> fold max ks 0" using fold_max_ge[of 0 ks] by blast
  then show False by (simp add: fresh_id_def)
qed

lemma write_order_appended:
  assumes "o_id x = fresh_id (map o_id (orders d))" and "o_id o' = o_id x"
  shows "write_order (d\<lparr>orders := orders d @ [x]\<rparr>) o' = d\<lparr>orders := orders d @ [o']\<rparr>"
proof -
  have "o_id r \<noteq> o_id o'" if "r \<in> set (orders d)" for r
  proof -
    have "o_id r \<in> set (map o_id (orders d))" using that by simp
    then show ?thesis using fresh_id_new[of "map o_id (orders d)"] assms by metis
  qed
  then have "map (\<lambda>r. if o_id r = o_id o' then o' else r) (orders d) = orders d"
    by (intro map_idI) simp
  then show ?thesis using assms by (simp add: write_order_def)
qed

section \<open>CreateProduct: the claim\<close>

lemma product_price_failure:
  "product_error_field (ValidationError (Plain ''Price must be positive'')) = ''price''"
  "py_repr_list [''Price must be positive''] = error_text ''Price must be positive''"
  by code_simp+

lemma product_stock_failure:
  "product_error_field (ValidationError (Plain ''Stock cannot be negative'')) = ''stock''"
  "py_repr_list [''Stock cannot be negative''] = error_text ''Stock cannot be negative''"
  by code_simp+

lemma nonpositive_float_le_zero: "x \<le> 0 \<Longrightarrow> float_le_zero x"
proof -
  assume "x \<le> 0"
  moreover have "(0::rat) \<le> 1 / 2 ^ 1075" by simp
  ultimately show ?thesis unfolding float_le_zero_def by (rule order_trans)
qed

text \<open>
  Claim C7, as amended. For every \<^verbatim>\<open>createProduct\<close> input with price \<open>\<le> 0\<close> the mutation
  fails with \<^verbatim>\<open>success=False\<close> and the field \<^verbatim>\<open>price\<close>; for every input with stock
  \<open>< 0\<close> whose price passes the price check (\<^verbatim>\<open>float(price) > 0\<close>) it fails with
  \<^verbatim>\<open>success=False\<close> and the field \<^verbatim>\<open>stock\<close>. The price is checked first.
\<close>

theorem C7_product_validation:
  "(pi_price inp \<le> 0 \<longrightarrow>
      CreateProduct_mutate d inp =
        (product_errors ''price'' (error_text ''Price must be positive''), d))
   \<and> (\<not> float_le_zero (pi_price inp) \<longrightarrow>
        (\<forall>s. pi_stock inp = Some s \<and> s < 0 \<longrightarrow>
           CreateProduct_mutate d inp =
             (product_errors ''stock'' (error_text ''Stock cannot be negative''), d)))"
proof -
  have 1: "pi_price inp \<le> 0 \<longrightarrow>
      CreateProduct_mutate d inp =
        (product_errors ''price'' (error_text ''Price must be positive''), d)"
    by (simp add: CreateProduct_mutate_def CreateProduct_try_def nonpositive_float_le_zero
        product_price_failure product_errors_def)
  have 2: "\<not> float_le_zero (pi_price inp) \<longrightarrow>
        (\<forall>s. pi_stock inp = Some s \<and> s < 0 \<longrightarrow>
           CreateProduct_mutate d inp =
             (product_errors ''stock'' (error_text ''Stock cannot be negative''), d))"
    by (simp add: CreateProduct_mutate_def CreateProduct_try_def stock_given_def stock_or_zero_def
        product_stock_failure product_errors_def)
  from 1 2 show ?thesis by blast
qed

theorem C7_product_validation_witness:
  "CreateProduct_mutate shop \<lparr>pi_name = ''Pen'', pi_price = - 5, pi_stock = Some 3\<rparr> =
     (product_errors ''price'' (error_text ''Price must be positive''), shop)
   \<and> CreateProduct_mutate shop \<lparr>pi_name = ''Pen'', pi_price = 10, pi_stock = Some (- 1)\<rparr> =
     (product_errors ''stock'' (error_text ''Stock cannot be negative''), shop)"
proof -
  have p: "\<not> float_le_zero 10" by (simp add: float_le_zero_def)
  show ?thesis
    using C7_product_validation[of "\<lparr>pi_name = ''Pen'', pi_price = - 5, pi_stock = Some 3\<rparr>" shop]
      C7_product_validation[of "\<lparr>pi_name = ''Pen'', pi_price = 10, pi_stock = Some (- 1)\<rparr>" shop] p
    by simp
qed

text \<open>
  Claim C7 as stated, "for every input with stock \<open>< 0\<close> the error field is \<^verbatim>\<open>stock\<close>",
  fails where the price is not positive either: price 0 and stock -1 give the field
  \<^verbatim>\<open>price\<close>.
\<close>

theorem C7_stock_field_counterexample:
  "pi_price free_pen = 0 \<and> pi_stock free_pen = Some (- 1)
   \<and> map_option et_field (cp_errors (fst (CreateProduct_mutate empty_db free_pen))) = Some ''price''
   \<and> map_option et_field (cp_errors (fst (CreateProduct_mutate empty_db free_pen))) \<noteq> Some ''stock''"
proof -
  have "CreateProduct_mutate empty_db free_pen =
      (product_errors ''price'' (error_text ''Price must be positive''), empty_db)"
    by (simp add: CreateProduct_mutate_def CreateProduct_try_def free_pen_def float_le_zero_def
        product_price_failure product_errors_def)
  then show ?thesis by (simp add: product_errors_def free_pen_def)
qed

section \<open>The phone pattern of the specification\<close>

text \<open>
  Every phone of the pattern that the specification describes matches the expression of
  the code, which also accepts other white space as a separator and a newline at the end.
\<close>

lemma digits_append:
  "length ds = n \<Longrightarrow> list_all is_digit ds \<Longrightarrow> digits n (ds @ r) = Some r"
  by (simp add: digits_def)

lemma digit_not_sep: "is_digit c \<Longrightarrow> \<not> is_sep c"
  by (auto simp: is_digit_def is_sep_def digit_chars_def space_chars_def)

lemma digit_not_plus: "is_digit c \<Longrightarrow> c \<noteq> CHR ''+''"
  by (auto simp: is_digit_def digit_chars_def)

lemma opt_char_keep: "ds \<noteq> [] \<Longrightarrow> \<not> p (hd ds) \<Longrightarrow> opt_char p (ds @ r) = ds @ r"
  by (cases ds) auto

lemma opt_sep_group:
  assumes "spec_separator s" and "ds \<noteq> []" and "list_all is_digit ds"
  shows "opt_char is_sep (s @ ds @ r) = ds @ r"
proof (cases "s = []")
  case True
  have "\<not> is_sep (hd ds)" using assms(2,3) by (cases ds) (auto simp: digit_not_sep)
  then show ?thesis using True assms(2) by (simp add: opt_char_keep)
next
  case False
  then consider "s = ''-''" | "s = ''.''" | "s = '' ''"
    using assms(1) by (auto simp: spec_separator_def)
  then show ?thesis
  proof cases
    case 1
    then show ?thesis by (simp add: is_sep_def)
  next
    case 2
    then show ?thesis by (simp add: is_sep_def)
  next
    case 3
    then show ?thesis by (simp add: is_sep_def space_chars_def)
  qed
qed

lemma opt_plus_group:
  assumes "ds \<noteq> []" and "list_all is_digit ds"
  shows "opt_char (\<lambda>c. c = CHR ''+'') ((if lead then ''+'' else []) @ ds @ r) = ds @ r"
proof (cases lead)
  case True
  then show ?thesis by simp
next
  case False
  have "hd ds \<noteq> CHR ''+''" using assms by (cases ds) (auto simp: digit_not_plus)
  then show ?thesis using False assms(1) by (simp add: opt_char_keep)
qed

lemma spec_phone_matches:
  assumes "length a = 3" and "length b = 3" and "length c = 4"
    and "list_all is_digit a" and "list_all is_digit b" and "list_all is_digit c"
    and "spec_separator s1" and "spec_separator s2"
  shows "phone_regex_match (spec_phone lead a s1 b s2 c)"
proof -
  have ne: "a \<noteq> []" "b \<noteq> []" "c \<noteq> []" using assms(1-3) by auto
  have 1: "opt_char (\<lambda>c. c = CHR ''+'') (spec_phone lead a s1 b s2 c) = a @ s1 @ b @ s2 @ c"
    unfolding spec_phone_def using opt_plus_group[OF ne(1) assms(4)] by simp
  have 2: "digits 3 (a @ s1 @ b @ s2 @ c) = Some (s1 @ b @ s2 @ c)"
    using digits_append[OF assms(1) assms(4)] by simp
  have 3: "opt_char is_sep (s1 @ b @ s2 @ c) = b @ s2 @ c"
    using opt_sep_group[OF assms(7) ne(2) assms(5)] by simp
  have 4: "digits 3 (b @ s2 @ c) = Some (s2 @ c)"
    using digits_append[OF assms(2) assms(5)] by simp
  have 5: "opt_char is_sep (s2 @ c) = c"
    using opt_sep_group[OF assms(8) ne(3) assms(6), of "[]"] by simp
  have 6: "digits 4 c = Some []"
    using digits_append[OF assms(3) assms(6), of "[]"] by simp
  show ?thesis by (simp add: phone_regex_match_def 1 2 3 4 5 6)
qed

section \<open>CreateCustomer: the claims\<close>

lemma customer_try_bad:
  "bad_format ve inp \<Longrightarrow> \<exists>m. customer_try ve msg d inp = (Inl (ValidationError (Plain m)), d)"
  by (auto simp: bad_format_def customer_try_def)

lemma customer_try_duplicate:
  "\<not> bad_format ve inp \<Longrightarrow> email_taken d (ci_email inp) \<Longrightarrow>
     customer_try ve msg d inp =
       (Inl (ValidationError
              (ErrorDict [(''email'', [''Customer with this Email already exists.''])])), d)"
  by (auto simp: bad_format_def customer_try_def Customer_full_clean_def)

lemma customer_try_ok:
  "\<not> bad_format ve inp \<Longrightarrow> \<not> email_taken d (ci_email inp) \<Longrightarrow>
     customer_try ve msg d inp =
       (Inr (new_customer d inp), d\<lparr>customers := customers d @ [new_customer d inp]\<rparr>)"
  by (auto simp: bad_format_def customer_try_def Customer_full_clean_def Customer_save_def
      new_customer_def Let_def)

text \<open>
  Claim C4 says that an input to \<^verbatim>\<open>createCustomer\<close> with an invalid email or an invalid
  phone gets the result \<^verbatim>\<open>{errors, success: false}\<close> and that no validation failure
  leaves the mutation as an exception. The code does the opposite on every such input: the
  \<^verbatim>\<open>ValidationError\<close> of the phone check and of \<^verbatim>\<open>validate_email\<close> is built from one
  message, the \<^verbatim>\<open>except ValidationError\<close> clause reads its \<^verbatim>\<open>message_dict\<close>, and the
  \<^verbatim>\<open>AttributeError\<close> raised there leaves \<^verbatim>\<open>mutate\<close>. The store is unchanged.
\<close>

theorem C4_validation_error_escapes:
  "bad_format ve inp \<Longrightarrow>
     CreateCustomer_mutate ve d inp = (Inl (AttributeError no_error_dict), d)"
proof -
  assume "bad_format ve inp"
  then obtain m where
    "customer_try ve CreateCustomer_phone_msg d inp = (Inl (ValidationError (Plain m)), d)"
    using customer_try_bad by blast
  then show ?thesis
    by (simp add: CreateCustomer_mutate_def CreateCustomer_on_ValidationError_def)
qed

theorem C4_validation_error_escapes_witness:
  "bad_format has_at_sign (carol\<lparr>ci_phone := Some ''12345''\<rparr>)
   \<and> CreateCustomer_mutate has_at_sign shop (carol\<lparr>ci_phone := Some ''12345''\<rparr>) =
       (Inl (AttributeError no_error_dict), shop)
   \<and> bad_format has_at_sign bob
   \<and> CreateCustomer_mutate has_at_sign shop bob = (Inl (AttributeError no_error_dict), shop)"
proof -
  have a: "bad_format has_at_sign (carol\<lparr>ci_phone := Some ''12345''\<rparr>)" by code_simp
  have b: "bad_format has_at_sign bob" by code_simp
  from a b C4_validation_error_escapes[OF a, of shop] C4_validation_error_escapes[OF b, of shop]
  show ?thesis by blast
qed

text \<open>
  Claim C6 says that a second \<^verbatim>\<open>createCustomer\<close> with an email already stored fails with
  an error tagged \<^verbatim>\<open>email\<close> and \<^verbatim>\<open>success=False\<close>, one customer with that email
  remaining. On the code the second call stores nothing, but it returns no result:
  \<^verbatim>\<open>full_clean\<close> reports the duplicate as a \<^verbatim>\<open>ValidationError\<close>, and the clause that
  handles it passes \<^verbatim>\<open>success=False\<close> to \<^verbatim>\<open>ErrorType\<close>, whose constructor raises
  \<^verbatim>\<open>TypeError\<close>.
\<close>

theorem C6_duplicate_email_escapes:
  "\<not> bad_format ve inp \<Longrightarrow> email_taken d (ci_email inp) \<Longrightarrow>
     CreateCustomer_mutate ve d inp = (Inl (TypeError (unexpected_keyword ''success'')), d)"
  by (simp add: CreateCustomer_mutate_def customer_try_duplicate
      CreateCustomer_on_ValidationError_def first_item_def ErrorType_init_def)

lemma alice_first:
  "CreateCustomer_mutate has_at_sign empty_db alice =
     (Inr \<lparr>cc_customer = Some alice_row, cc_errors = None, cc_success = Some True\<rparr>,
      empty_db\<lparr>customers := [alice_row]\<rparr>)"
  by code_simp

theorem C6_duplicate_email_escapes_witness:
  "CreateCustomer_mutate has_at_sign empty_db alice =
     (Inr \<lparr>cc_customer = Some alice_row, cc_errors = None, cc_success = Some True\<rparr>,
      empty_db\<lparr>customers := [alice_row]\<rparr>)
   \<and> CreateCustomer_mutate has_at_sign (empty_db\<lparr>customers := [alice_row]\<rparr>) alice =
     (Inl (TypeError (unexpected_keyword ''success'')), empty_db\<lparr>customers := [alice_row]\<rparr>)
   \<and> length (filter (\<lambda>c. c_email c = ci_email alice)
               (customers (empty_db\<lparr>customers := [alice_row]\<rparr>))) = 1"
proof -
  have a: "\<not> bad_format has_at_sign alice" by code_simp
  have b: "email_taken (empty_db\<lparr>customers := [alice_row]\<rparr>) (ci_email alice)" by code_simp
  have c: "length (filter (\<lambda>c. c_email c = ci_email alice)
               (customers (empty_db\<lparr>customers := [alice_row]\<rparr>))) = 1"
    by (simp add: alice_def alice_row_def)
  from alice_first C6_duplicate_email_escapes[OF a b] c show ?thesis by blast
qed

text \<open>
  Claim C8, as amended. For every name, email and phone where the validator accepts the
  email, the phone matches the pattern (the expression of the code, hence every phone of
  the specification's pattern) and no stored customer has that email,
  \<^verbatim>\<open>createCustomer\<close> succeeds with \<^verbatim>\<open>success=True\<close>, and the customer it stores has
  exactly the email, the name and the phone of the input.
\<close>

theorem C8_valid_customer_created:
  assumes "ve (ci_email inp)" and "ci_phone inp = Some p" and "phone_regex_match p"
    and "\<not> email_taken d (ci_email inp)"
  shows "\<exists>c. CreateCustomer_mutate ve d inp =
               (Inr \<lparr>cc_customer = Some c, cc_errors = None, cc_success = Some True\<rparr>,
                d\<lparr>customers := customers d @ [c]\<rparr>)
             \<and> c_email c = ci_email inp \<and> c_name c = ci_name inp \<and> c_phone c = p"
proof -
  have "\<not> bad_format ve inp"
    using assms(1-3) by (simp add: bad_format_def phone_or_empty_def)
  then have "customer_try ve CreateCustomer_phone_msg d inp =
       (Inr (new_customer d inp), d\<lparr>customers := customers d @ [new_customer d inp]\<rparr>)"
    using assms(4) by (rule customer_try_ok)
  then have "CreateCustomer_mutate ve d inp =
       (Inr \<lparr>cc_customer = Some (new_customer d inp), cc_errors = None, cc_success = Some True\<rparr>,
        d\<lparr>customers := customers d @ [new_customer d inp]\<rparr>)"
    by (simp add: CreateCustomer_mutate_def)
  moreover have "c_email (new_customer d inp) = ci_email inp \<and> c_name (new_customer d inp) = ci_name inp
      \<and> c_phone (new_customer d inp) = p"
    using assms(2) by (simp add: new_customer_def phone_or_empty_def)
  ultimately show ?thesis by blast
qed

theorem C8_valid_customer_created_witness:
  "\<exists>c. CreateCustomer_mutate has_at_sign shop carol =
          (Inr \<lparr>cc_customer = Some c, cc_errors = None, cc_success = Some True\<rparr>,
           shop\<lparr>customers := customers shop @ [c]\<rparr>)
        \<and> c_email c = ''carol@example.com'' \<and> c_name c = ''Carol'' \<and> c_phone c = ''123-456-7890''"
proof -
  have 1: "has_at_sign (ci_email carol)" by code_simp
  have 2: "ci_phone carol = Some ''123-456-7890''" by (simp add: carol_def)
  have 3: "phone_regex_match ''123-456-7890''" by code_simp
  have 4: "\<not> email_taken shop (ci_email carol)" by code_simp
  from C8_valid_customer_created[of has_at_sign carol "''123-456-7890''" shop, OF 1 2 3 4]
  show ?thesis by (simp add: carol_def)
qed

text \<open>
  Claim C8 as stated, without the condition on the stored emails, fails: after Carol is
  created, the same valid input does not succeed a second time.
\<close>

theorem C8_duplicate_counterexample:
  "has_at_sign (ci_email carol)
   \<and> ci_phone carol = Some ''123-456-7890''
   \<and> phone_regex_match ''123-456-7890''
   \<and> snd (CreateCustomer_mutate has_at_sign empty_db carol) = empty_db\<lparr>customers := [carol_row]\<rparr>
   \<and> CreateCustomer_mutate has_at_sign (empty_db\<lparr>customers := [carol_row]\<rparr>) carol =
       (Inl (TypeError (unexpected_keyword ''success'')), empty_db\<lparr>customers := [carol_row]\<rparr>)"
  by code_simp

section \<open>BulkCreateCustomers: the claims\<close>

text \<open>
  Claim C9. \<^verbatim>\<open>bulkCreateCustomers\<close> on an empty list of inputs returns no customers, no
  errors and \<^verbatim>\<open>success=True\<close>, and leaves the store unchanged.
\<close>

theorem C9_bulk_empty:
  "BulkCreateCustomers_mutate ve d [] =
     (Inr \<lparr>bc_customers = [], bc_errors = [], bc_success = True\<rparr>, d)"
  by (simp add: BulkCreateCustomers_mutate_def)

theorem C9_bulk_empty_witness:
  "BulkCreateCustomers_mutate has_at_sign shop [] =
     (Inr \<lparr>bc_customers = [], bc_errors = [], bc_success = True\<rparr>, shop)"
  by (rule C9_bulk_empty)

lemma bulk_row_bad:
  "bad_format ve inp \<Longrightarrow> bulk_row ve idx inp acc = Inl (AttributeError no_error_dict)"
proof -
  assume "bad_format ve inp"
  then obtain m where
    "customer_try ve ''Invalid phone format'' (ba_db acc) inp =
       (Inl (ValidationError (Plain m)), ba_db acc)"
    using customer_try_bad by blast
  then show ?thesis
    by (simp add: bulk_row_def bulk_except_def bulk_error_msg_def)
qed

lemma bulk_row_good:
  "\<not> bad_format ve inp \<Longrightarrow> \<exists>acc'. bulk_row ve idx inp acc = Inr acc'"
proof (cases "email_taken (ba_db acc) (ci_email inp)")
  case True
  assume "\<not> bad_format ve inp"
  then show ?thesis using True
    by (simp add: bulk_row_def customer_try_duplicate bulk_except_def bulk_error_msg_def
        first_item_def)
next
  case False
  assume "\<not> bad_format ve inp"
  then show ?thesis using False
    by (simp add: bulk_row_def customer_try_ok)
qed

lemma bulk_loop_bad:
  "list_ex (bad_format ve) inputs \<Longrightarrow>
     bulk_loop ve idx inputs acc = Inl (AttributeError no_error_dict)"
proof (induction inputs arbitrary: idx acc)
  case Nil
  then show ?case by simp
next
  case (Cons inp rest)
  show ?case
  proof (cases "bad_format ve inp")
    case True
    then show ?thesis by (simp add: bulk_row_bad)
  next
    case False
    then obtain acc' where "bulk_row ve idx inp acc = Inr acc'"
      using bulk_row_good by blast
    moreover have "list_ex (bad_format ve) rest" using Cons.prems False by simp
    ultimately show ?thesis using Cons.IH by simp
  qed
qed

text \<open>
  Claim C1 says that a failing row of \<^verbatim>\<open>bulkCreateCustomers\<close> does not abort the other
  rows, and that three inputs of which the second has an invalid email give two customers,
  one error tagged \<^verbatim>\<open>email (row 2)\<close> and \<^verbatim>\<open>success=False\<close>. On the code, one row with an
  invalid email or an invalid phone anywhere in the list aborts the whole call: the
  \<^verbatim>\<open>except\<close> clause of the loop reads \<^verbatim>\<open>message_dict\<close> of a \<^verbatim>\<open>ValidationError\<close> built from
  one message, the \<^verbatim>\<open>AttributeError\<close> leaves \<^verbatim>\<open>mutate\<close>, and
  \<^verbatim>\<open>@transaction.atomic\<close> rolls back the rows already saved.
\<close>

theorem C1_bulk_row_failure_aborts:
  "list_ex (bad_format ve) inputs \<Longrightarrow>
     BulkCreateCustomers_mutate ve d inputs = (Inl (AttributeError no_error_dict), d)"
  by (simp add: BulkCreateCustomers_mutate_def bulk_loop_bad)

theorem C1_bulk_row_failure_aborts_witness:
  "\<not> bad_format has_at_sign alice \<and> bad_format has_at_sign bob \<and> \<not> bad_format has_at_sign carol
   \<and> BulkCreateCustomers_mutate has_at_sign empty_db [alice, bob, carol] =
       (Inl (AttributeError no_error_dict), empty_db)"
proof -
  have a: "\<not> bad_format has_at_sign alice" by code_simp
  have b: "bad_format has_at_sign bob" by code_simp
  have c: "\<not> bad_format has_at_sign carol" by code_simp
  have "list_ex (bad_format has_at_sign) [alice, bob, carol]" using b by simp
  from a b c C1_bulk_row_failure_aborts[OF this, of empty_db] show ?thesis by blast
qed

text \<open>
  A row that fails with a dictionary-shaped error, a duplicate email reported by
  \<^verbatim>\<open>full_clean\<close>, is handled the way the loop intends: the other rows are kept.
\<close>

lemma bulk_duplicate_row_isolated:
  "BulkCreateCustomers_mutate has_at_sign empty_db [alice, alice, carol] =
     (Inr \<lparr>bc_customers = [alice_row, carol_row\<lparr>c_id := 2\<rparr>],
           bc_errors = [\<lparr>et_field = ''email (row 2)'',
                         et_messages = [''Customer with this Email already exists.'']\<rparr>],
           bc_success = False\<rparr>,
      empty_db\<lparr>customers := [alice_row, carol_row\<lparr>c_id := 2\<rparr>]\<rparr>)"
  by code_simp

section \<open>CreateOrder: the field of an error\<close>

text \<open>
  The field of an error is read off the text of the exception. The text for a missing
  product holds the id as it was given; an id that \<^verbatim>\<open>int\<close> accepts is made of digits,
  signs, underscores and white space, so the text holds \<^verbatim>\<open>product\<close> and not \<^verbatim>\<open>customer\<close>.
\<close>

lemma set_dropWhile_cover: "set s \<subseteq> {c. P c} \<union> set (dropWhile P s)"
  by (induction s) auto

lemma py_strip_cover: "set s \<subseteq> set int_space_chars \<union> set (py_strip s)"
proof -
  have a: "set s \<subseteq> {c. is_int_space c} \<union> set (dropWhile is_int_space s)"
    by (rule set_dropWhile_cover)
  have "set (rev (dropWhile is_int_space s))
      \<subseteq> {c. is_int_space c} \<union> set (dropWhile is_int_space (rev (dropWhile is_int_space s)))"
    by (rule set_dropWhile_cover)
  then have b: "set (dropWhile is_int_space s) \<subseteq> {c. is_int_space c} \<union> set (py_strip s)"
    by (simp add: py_strip_def)
  have "{c. is_int_space c} = set int_space_chars" by (auto simp: is_int_space_def)
  then show ?thesis using a b by blast
qed

lemma valid_numeral_chars: "valid_numeral u \<Longrightarrow> set u \<subseteq> set digit_chars \<union> {CHR ''_''}"
  by (auto simp: valid_numeral_def list_all_iff is_digit_def)

lemma numeric_id_chars:
  assumes "numeric_id s"
  shows "set s \<subseteq> id_chars"
proof (cases "py_strip s")
  case Nil
  then show ?thesis using assms by (simp add: numeric_id_def py_int_def)
next
  case (Cons c u)
  have "set (c # u) \<subseteq> set digit_chars \<union> {CHR ''_'', CHR ''+'', CHR ''-''}"
  proof (cases "c = CHR ''-'' \<or> c = CHR ''+''")
    case True
    then have "valid_numeral u"
      using assms Cons by (auto simp: numeric_id_def py_int_def split: if_splits)
    then show ?thesis using True valid_numeral_chars by auto
  next
    case False
    then have "valid_numeral (c # u)"
      using assms Cons by (auto simp: numeric_id_def py_int_def split: if_splits)
    then show ?thesis using valid_numeral_chars by blast
  qed
  then show ?thesis using py_strip_cover[of s] Cons unfolding id_chars_def by auto
qed

lemma hex2_chars: "set (hex2 c) \<subseteq> set hex_chars"
proof -
  have "length hex_chars = 16" by (simp add: hex_chars_def)
  then have "hex_chars ! ((of_char c div 16) mod 16) \<in> set hex_chars"
    and "hex_chars ! (of_char c mod 16) \<in> set hex_chars"
    by (simp_all add: nth_mem)
  then show ?thesis by (simp add: hex2_def)
qed

lemma repr_char_chars: "set (repr_char q c) \<subseteq> {c} \<union> escape_chars"
  using hex2_chars[of c] by (auto simp: repr_char_def escape_chars_def)

lemma py_repr_str_chars: "set (py_repr_str s) \<subseteq> set s \<union> escape_chars"
proof -
  have "set (concat (map (repr_char q) s)) \<subseteq> set s \<union> escape_chars" for q
    using repr_char_chars by fastforce
  then show ?thesis
    by (auto simp: py_repr_str_def Let_def escape_chars_def)
qed

lemma lower_char_m:
  assumes "lower_char c = CHR ''m''"
  shows "c = CHR ''m'' \<or> c = CHR ''M''"
proof (cases "map_of (zip upper_chars lower_chars) c")
  case None
  then show ?thesis using assms by (simp add: lower_char_def)
next
  case (Some l)
  have "l = CHR ''m''" using assms Some by (simp add: lower_char_def)
  then have "(c, CHR ''m'') \<in> set (zip upper_chars lower_chars)"
    using Some by (simp add: map_of_SomeD)
  then show ?thesis by (simp add: upper_chars_def lower_chars_def)
qed

lemma no_m_lower:
  assumes "CHR ''m'' \<notin> set t" and "CHR ''M'' \<notin> set t"
  shows "\<not> py_in ''customer'' (py_lower t)"
proof
  assume "py_in ''customer'' (py_lower t)"
  then have "set ''customer'' \<subseteq> set (py_lower t)" by (rule py_in_set)
  then have "CHR ''m'' \<in> set (py_lower t)" by auto
  then obtain c where "c \<in> set t" "lower_char c = CHR ''m''"
    by (auto simp: py_lower_def)
  then show False using lower_char_m assms by blast
qed

lemma id_chars_no_m: "CHR ''m'' \<notin> id_chars" "CHR ''M'' \<notin> id_chars"
  "squote \<notin> id_chars" "dquote \<notin> id_chars"
  by (simp_all add: id_chars_def int_space_chars_def digit_chars_def squote_def dquote_def)

lemma escape_chars_no_m: "CHR ''m'' \<notin> escape_chars" "CHR ''M'' \<notin> escape_chars"
  by (simp_all add: escape_chars_def hex_chars_def squote_def dquote_def backslash_def)

lemma product_missing_msg_set:
  "set (product_missing_msg k) = set ''Product with ID '' \<union> set k \<union> set '' does not exist''"
  by (simp only: product_missing_msg_def set_append Un_assoc)

lemma product_missing_no_customer:
  assumes "numeric_id k"
  shows "\<not> py_in ''customer'' (py_lower (py_repr_list [product_missing_msg k]))"
proof (rule no_m_lower)
  have k: "set k \<subseteq> id_chars" using assms by (rule numeric_id_chars)
  have r: "set (py_repr_list [product_missing_msg k])
      \<subseteq> {CHR ''['', CHR '']''} \<union> set (product_missing_msg k) \<union> escape_chars"
    using py_repr_str_chars[of "product_missing_msg k"] by (auto simp: py_repr_list_def)
  have f: "CHR ''m'' \<notin> set ''Product with ID '' \<union> set '' does not exist''"
    "CHR ''M'' \<notin> set ''Product with ID '' \<union> set '' does not exist''"
    by simp_all
  show "CHR ''m'' \<notin> set (py_repr_list [product_missing_msg k])"
    using r k f(1) id_chars_no_m(1) escape_chars_no_m(1)
    unfolding product_missing_msg_set by auto
  show "CHR ''M'' \<notin> set (py_repr_list [product_missing_msg k])"
    using r k f(2) id_chars_no_m(2) escape_chars_no_m(2)
    unfolding product_missing_msg_set by auto
qed

lemma product_missing_has_product:
  assumes "numeric_id k"
  shows "py_in ''product'' (py_lower (py_repr_list [product_missing_msg k]))"
proof -
  have k: "set k \<subseteq> id_chars" using assms by (rule numeric_id_chars)
  have q: "squote \<notin> set (product_missing_msg k)"
    using k id_chars_no_m(3) unfolding product_missing_msg_set by (auto simp: squote_def)
  have a: "concat (map (repr_char squote) ''Product with ID '') = ''Product with ID ''"
    by code_simp
  have l: "py_lower (''['' @ [squote]) = ''['' @ [squote]"
    "py_lower ''Product with ID '' = ''product'' @ '' with id ''"
    by code_simp+
  define rest where
    "rest = concat (map (repr_char squote) (k @ '' does not exist'')) @ [squote] @ '']''"
  have "py_repr_str (product_missing_msg k) =
      [squote] @ ''Product with ID '' @ concat (map (repr_char squote) (k @ '' does not exist''))
        @ [squote]"
    using q a by (simp add: py_repr_str_def product_missing_msg_def)
  then have "py_repr_list [product_missing_msg k] =
      (''['' @ [squote]) @ ''Product with ID '' @ rest"
    by (simp add: py_repr_list_def rest_def)
  then have "py_lower (py_repr_list [product_missing_msg k]) =
      py_lower (''['' @ [squote]) @ py_lower ''Product with ID '' @ py_lower rest"
    by (simp only: py_lower_append)
  then have eq: "py_lower (py_repr_list [product_missing_msg k]) =
      (''['' @ [squote]) @ ''product'' @ ('' with id '' @ py_lower rest)"
    by (simp only: l append_assoc)
  show ?thesis unfolding eq by (rule py_in_append)
qed

lemma order_failure_product:
  "numeric_id k \<Longrightarrow>
     order_failure (ValidationError (Plain (product_missing_msg k))) =
       order_errors ''product_ids'' (py_repr_list [product_missing_msg k])"
  by (simp add: order_failure_def order_error_field_def order_errors_def
      product_missing_no_customer product_missing_has_product)

lemma order_failure_customer:
  "order_failure (ValidationError (Plain ''Customer does not exist'')) =
     order_errors ''customer_id'' (error_text ''Customer does not exist'')"
  by code_simp

lemma order_failure_empty:
  "order_failure (ValidationError (Plain ''At least one product must be specified'')) =
     order_errors ''product_ids'' (error_text ''At least one product must be specified'')"
  by code_simp

section \<open>CreateOrder: the lookups and the writes\<close>

lemma Product_get_key: "Product_get d k = Inr (Some p) \<Longrightarrow> py_int k = Some (int (p_id p))"
  by (auto simp: Product_get_def find_Some_iff split: option.splits)

lemma Customer_get_key: "Customer_get d k = Inr (Some c) \<Longrightarrow> py_int k = Some (int (c_id c))"
  by (auto simp: Customer_get_def find_Some_iff split: option.splits)

lemma Product_get_numeric: "numeric_id k \<Longrightarrow> \<exists>x. Product_get d k = Inr x"
  by (auto simp: numeric_id_def Product_get_def)

lemma Customer_get_numeric: "numeric_id k \<Longrightarrow> \<exists>x. Customer_get d k = Inr x"
  by (auto simp: numeric_id_def Customer_get_def)

lemma Customer_get_products_update [simp]:
  "Customer_get (d\<lparr>products := ps\<rparr>) k = Customer_get d k"
  by (simp add: Customer_get_def split: option.splits)

lemma resolve_products_keys:
  "resolve_products d ks = Inr ps \<Longrightarrow> map (\<lambda>p. Some (int (p_id p))) ps = map py_int ks"
proof (induction ks arbitrary: ps)
  case Nil
  then show ?case by simp
next
  case (Cons k ks)
  from Cons.prems obtain p qs where p: "Product_get d k = Inr (Some p)"
    and qs: "resolve_products d ks = Inr qs" and ps: "ps = p # qs"
    by (auto split: sum.splits option.splits)
  show ?case using Cons.IH[OF qs] Product_get_key[OF p] ps by simp
qed

lemma resolve_products_first_unresolved:
  "list_all numeric_id ks \<Longrightarrow> unresolved d ks = k # rest \<Longrightarrow>
     resolve_products d ks = Inl (ValidationError (Plain (product_missing_msg k)))"
proof (induction ks)
  case Nil
  then show ?case by (simp add: unresolved_def)
next
  case (Cons a ks)
  from Cons.prems(1) obtain x where x: "Product_get d a = Inr x"
    using Product_get_numeric[of a d] by auto
  show ?case
  proof (cases x)
    case None
    then have "k = a" using Cons.prems(2) x by (simp add: unresolved_def)
    then show ?thesis using None x by simp
  next
    case (Some p)
    then have "unresolved d ks = k # rest" using Cons.prems(2) x by (simp add: unresolved_def)
    then show ?thesis using Cons.IH Cons.prems(1) Some x by simp
  qed
qed

lemma resolve_products_all:
  "list_all numeric_id ks \<Longrightarrow> unresolved d ks = [] \<Longrightarrow>
     \<exists>ps. resolve_products d ks = Inr ps \<and> length ps = length ks"
proof (induction ks)
  case Nil
  then show ?case by simp
next
  case (Cons a ks)
  from Cons.prems(1) obtain x where x: "Product_get d a = Inr x"
    using Product_get_numeric[of a d] by auto
  from Cons.prems(2) x obtain p where p: "x = Some p"
    by (cases x) (auto simp: unresolved_def)
  from Cons.prems x p have "unresolved d ks = []" by (simp add: unresolved_def)
  then obtain ps where "resolve_products d ks = Inr ps" "length ps = length ks"
    using Cons.IH Cons.prems(1) by auto
  then show ?case using x p by simp
qed

lemma CreateOrder_writes_ok:
  assumes "f Create_order = None" and "f Set_products = None" and "f Save_order = None"
  shows "CreateOrder_writes f d customer ps =
           (Inr (placed_order d customer ps),
            d\<lparr>orders := orders d @ [placed_order d customer ps]\<rparr>, False)"
proof -
  define o1 where "o1 = \<lparr>o_id = fresh_id (map o_id (orders d)), o_customer = c_id customer,
      o_products = [], o_total_amount = 0\<rparr>"
  define o2 where "o2 = o1\<lparr>o_products := remdups (map p_id ps)\<rparr>"
  define d2 where "d2 = d\<lparr>orders := orders d @ [o2]\<rparr>"
  define o3 where "o3 = o2\<lparr>o_total_amount := sum_list (map p_price (linked_products d2 o2))\<rparr>"
  have s1: "Order_create f d customer = (Inr o1, d\<lparr>orders := orders d @ [o1]\<rparr>)"
    using assms(1) by (simp add: Order_create_def o1_def Let_def)
  have w2: "write_order (d\<lparr>orders := orders d @ [o1]\<rparr>) o2 = d2"
    unfolding d2_def by (rule write_order_appended) (simp_all add: o1_def o2_def)
  have s2: "Order_products_set f (d\<lparr>orders := orders d @ [o1]\<rparr>) o1 ps = (Inr o2, d2)"
    using assms(2) by (simp add: Order_products_set_def Let_def o2_def[symmetric] w2)
  have w3: "write_order d2 o3 = d\<lparr>orders := orders d @ [o3]\<rparr>"
    unfolding d2_def by (rule write_order_appended) (simp_all add: o1_def o2_def o3_def)
  have s3: "Order_save f d2 o2 = (Inr o3, d\<lparr>orders := orders d @ [o3]\<rparr>)"
    using assms(3) by (simp add: Order_save_def Let_def o3_def[symmetric] w3)
  have "linked_products d2 o2 = filter (\<lambda>p. p_id p \<in> set (map p_id ps)) (products d)"
    by (simp add: linked_products_def d2_def o2_def)
  then have o3: "o3 = placed_order d customer ps"
    by (simp add: o3_def o2_def o1_def placed_order_def)
  show ?thesis
    unfolding CreateOrder_writes_def using s1 s2 s3 o3 by simp
qed

lemma CreateOrder_writes_Inl:
  "CreateOrder_writes f d customer ps = (Inl e, d', m) \<Longrightarrow> m"
  by (auto simp: CreateOrder_writes_def split: prod.splits sum.splits)

lemma CreateOrder_writes_Inr:
  assumes "CreateOrder_writes f d customer ps = (Inr o', d', m)"
  shows "f Create_order = None \<and> f Set_products = None \<and> f Save_order = None"
proof -
  have 1: "f Create_order = None"
    using assms by (auto simp: CreateOrder_writes_def Order_create_def
        split: prod.splits sum.splits option.splits)
  have 2: "f Set_products = None"
    using assms by (auto simp: CreateOrder_writes_def Order_products_set_def
        split: prod.splits sum.splits option.splits)
  have 3: "f Save_order = None"
    using assms by (auto simp: CreateOrder_writes_def Order_save_def
        split: prod.splits sum.splits option.splits)
  from 1 2 3 show ?thesis by blast
qed

section \<open>CreateOrder: the cases of a call\<close>

lemma CreateOrder_try_Inl:
  "CreateOrder_try f d inp = (Inl e, d', m) \<Longrightarrow> m \<or> d' = d"
  by (auto simp: CreateOrder_try_def dest: CreateOrder_writes_Inl
      split: sum.splits option.splits if_splits)

lemma CreateOrder_try_Inr:
  assumes "CreateOrder_try f d inp = (Inr o', d', m)"
  shows "\<exists>customer ps. Customer_get d (oi_customer_id inp) = Inr (Some customer)
           \<and> resolve_products d (oi_product_ids inp) = Inr ps \<and> ps \<noteq> []
           \<and> o' = placed_order d customer ps
           \<and> d' = d\<lparr>orders := orders d @ [o']\<rparr> \<and> \<not> m"
proof -
  from assms obtain customer ps where
    c: "Customer_get d (oi_customer_id inp) = Inr (Some customer)"
    and r: "resolve_products d (oi_product_ids inp) = Inr ps" and ne: "ps \<noteq> []"
    and w: "CreateOrder_writes f d customer ps = (Inr o', d', m)"
    by (auto simp: CreateOrder_try_def split: sum.splits option.splits if_splits)
  from CreateOrder_writes_Inr[OF w]
  have "CreateOrder_writes f d customer ps =
      (Inr (placed_order d customer ps), d\<lparr>orders := orders d @ [placed_order d customer ps]\<rparr>,
       False)"
    by (simp add: CreateOrder_writes_ok)
  then show ?thesis using w c r ne by auto
qed

lemma mutate_lookup_error:
  "Customer_get d (oi_customer_id inp) = Inl e \<Longrightarrow>
     CreateOrder_mutate f d inp = (order_failure e, d)"
  by (simp add: CreateOrder_mutate_def CreateOrder_try_def)

lemma mutate_no_customer:
  "Customer_get d (oi_customer_id inp) = Inr None \<Longrightarrow>
     CreateOrder_mutate f d inp =
       (order_errors ''customer_id'' (error_text ''Customer does not exist''), d)"
  by (simp add: CreateOrder_mutate_def CreateOrder_try_def order_failure_customer)

lemma mutate_product_missing:
  assumes "Customer_get d (oi_customer_id inp) = Inr (Some customer)"
    and "list_all numeric_id (oi_product_ids inp)"
    and "unresolved d (oi_product_ids inp) = k # rest"
  shows "CreateOrder_mutate f d inp =
           (order_errors ''product_ids'' (py_repr_list [product_missing_msg k]), d)"
proof -
  have "k \<in> set (unresolved d (oi_product_ids inp))" using assms(3) by simp
  then have "k \<in> set (oi_product_ids inp)" by (simp add: unresolved_def)
  then have "numeric_id k" using assms(2) by (simp add: list_all_iff)
  then show ?thesis
    using assms resolve_products_first_unresolved[OF assms(2,3)]
    by (simp add: CreateOrder_mutate_def CreateOrder_try_def order_failure_product)
qed

lemma mutate_empty:
  "Customer_get d (oi_customer_id inp) = Inr (Some customer) \<Longrightarrow> oi_product_ids inp = [] \<Longrightarrow>
     CreateOrder_mutate f d inp =
       (order_errors ''product_ids'' (error_text ''At least one product must be specified''), d)"
  by (simp add: CreateOrder_mutate_def CreateOrder_try_def order_failure_empty)

lemma order_errors_fails [simp]: "co_success (order_errors t m) = Some False"
  by (simp add: order_errors_def)

lemma order_failure_fails [simp]: "co_success (order_failure e) = Some False"
  "co_order (order_failure e) = None"
  by (simp_all add: order_failure_def)

lemma no_faults_iff:
  "f = no_faults \<longleftrightarrow> f Create_order = None \<and> f Set_products = None \<and> f Save_order = None"
proof
  assume "f = no_faults"
  then show "f Create_order = None \<and> f Set_products = None \<and> f Save_order = None"
    by (simp add: no_faults_def)
next
  assume a: "f Create_order = None \<and> f Set_products = None \<and> f Save_order = None"
  have "f w = no_faults w" for w using a by (cases w) (simp_all add: no_faults_def)
  then show "f = no_faults" by (rule ext)
qed

lemma mutate_resolved:
  assumes "Customer_get d (oi_customer_id inp) = Inr (Some customer)"
    and "list_all numeric_id (oi_product_ids inp)"
    and "unresolved d (oi_product_ids inp) = []"
    and "oi_product_ids inp \<noteq> []"
  shows "co_success (fst (CreateOrder_mutate f d inp)) = Some (f = no_faults)"
proof -
  obtain ps where ps: "resolve_products d (oi_product_ids inp) = Inr ps"
      "length ps = length (oi_product_ids inp)"
    using resolve_products_all[OF assms(2,3)] by blast
  then have ne: "ps \<noteq> []" using assms(4) by auto
  have t: "CreateOrder_try f d inp = CreateOrder_writes f d customer ps"
    using assms(1) ps(1) ne by (simp add: CreateOrder_try_def)
  show ?thesis
  proof (cases "f = no_faults")
    case True
    then show ?thesis
      using t by (simp add: CreateOrder_mutate_def CreateOrder_writes_ok no_faults_iff)
  next
    case False
    obtain r d' m where w: "CreateOrder_writes f d customer ps = (r, d', m)"
      by (cases "CreateOrder_writes f d customer ps") auto
    have "\<exists>e. r = Inl e"
    proof (cases r)
      case (Inl e)
      then show ?thesis by simp
    next
      case (Inr o')
      then have "f = no_faults" using CreateOrder_writes_Inr[of f d customer ps o' d' m] w
        by (simp add: no_faults_iff)
      then show ?thesis using False by simp
    qed
    then show ?thesis using t w False by (auto simp: CreateOrder_mutate_def)
  qed
qed

section \<open>CreateOrder: the claims\<close>

text \<open>
  Claim C2. For every successful \<^verbatim>\<open>createOrder\<close>, the order is stored, it refers to the
  customer of the input, it is linked to exactly the products of the input, and its
  \<^verbatim>\<open>total_amount\<close> is the exact sum of the prices of the linked products, as stored when
  the order is created.
\<close>

theorem C2_order_total:
  assumes "co_success (fst (CreateOrder_mutate f d inp)) = Some True"
  shows "\<exists>order. co_order (fst (CreateOrder_mutate f d inp)) = Some order
           \<and> snd (CreateOrder_mutate f d inp) = d\<lparr>orders := orders d @ [order]\<rparr>
           \<and> Some (int (o_customer order)) = py_int (oi_customer_id inp)
           \<and> set (map (\<lambda>k. Some (int k)) (o_products order)) = set (map py_int (oi_product_ids inp))
           \<and> o_total_amount order =
               sum_list (map p_price (linked_products (snd (CreateOrder_mutate f d inp)) order))"
proof -
  obtain r d' m where t: "CreateOrder_try f d inp = (r, d', m)"
    by (cases "CreateOrder_try f d inp") auto
  then obtain o' where r: "r = Inr o'"
    using assms by (cases r) (auto simp: CreateOrder_mutate_def)
  from CreateOrder_try_Inr[OF t[unfolded r]] obtain customer ps where
    c: "Customer_get d (oi_customer_id inp) = Inr (Some customer)"
    and ps: "resolve_products d (oi_product_ids inp) = Inr ps"
    and o': "o' = placed_order d customer ps"
    and d': "d' = d\<lparr>orders := orders d @ [o']\<rparr>" and m: "\<not> m"
    by blast
  have eq: "CreateOrder_mutate f d inp =
      (\<lparr>co_order = Some o', co_errors = None, co_success = Some True\<rparr>,
       d\<lparr>orders := orders d @ [o']\<rparr>)"
    using t r d' m by (simp add: CreateOrder_mutate_def)
  have keys: "set (map (\<lambda>k. Some (int k)) (o_products o')) = set (map py_int (oi_product_ids inp))"
  proof -
    have "set (map (\<lambda>k. Some (int k)) (o_products o')) = set (map (\<lambda>p. Some (int (p_id p))) ps)"
      by (auto simp: o' placed_order_def)
    then show ?thesis using resolve_products_keys[OF ps] by simp
  qed
  have total: "o_total_amount o' =
      sum_list (map p_price (linked_products (d\<lparr>orders := orders d @ [o']\<rparr>) o'))"
    by (simp add: linked_products_def o' placed_order_def)
  have cust: "Some (int (o_customer o')) = py_int (oi_customer_id inp)"
    using Customer_get_key[OF c] by (simp add: o' placed_order_def)
  show ?thesis unfolding eq using keys total cust by simp
qed

lemma order_12_result:
  "CreateOrder_mutate no_faults shop order_12 =
     (\<lparr>co_order = Some \<lparr>o_id = 1, o_customer = 1, o_products = [1, 2], o_total_amount = 51 / 2\<rparr>,
       co_errors = None, co_success = Some True\<rparr>,
      shop\<lparr>orders := [\<lparr>o_id = 1, o_customer = 1, o_products = [1, 2], o_total_amount = 51 / 2\<rparr>]\<rparr>)"
  by code_simp

text \<open>
  The example of the specification: products priced 10.00 and 15.50 give the total 25.50.
\<close>

theorem C2_order_total_witness:
  "co_success (fst (CreateOrder_mutate no_faults shop order_12)) = Some True
   \<and> (\<exists>order. co_order (fst (CreateOrder_mutate no_faults shop order_12)) = Some order
         \<and> snd (CreateOrder_mutate no_faults shop order_12) = shop\<lparr>orders := orders shop @ [order]\<rparr>
         \<and> Some (int (o_customer order)) = py_int (oi_customer_id order_12)
         \<and> set (map (\<lambda>k. Some (int k)) (o_products order))
             = set (map py_int (oi_product_ids order_12))
         \<and> o_total_amount order =
             sum_list (map p_price
               (linked_products (snd (CreateOrder_mutate no_faults shop order_12)) order))
         \<and> map p_price (linked_products (snd (CreateOrder_mutate no_faults shop order_12)) order)
             = [10, 31 / 2]
         \<and> o_total_amount order = 51 / 2)"
proof -
  have h: "co_success (fst (CreateOrder_mutate no_faults shop order_12)) = Some True"
    by (simp add: order_12_result)
  from C2_order_total[OF h] obtain order where
    o: "co_order (fst (CreateOrder_mutate no_faults shop order_12)) = Some order"
      "snd (CreateOrder_mutate no_faults shop order_12) = shop\<lparr>orders := orders shop @ [order]\<rparr>"
      "Some (int (o_customer order)) = py_int (oi_customer_id order_12)"
      "set (map (\<lambda>k. Some (int k)) (o_products order))
         = set (map py_int (oi_product_ids order_12))"
      "o_total_amount order =
         sum_list (map p_price
           (linked_products (snd (CreateOrder_mutate no_faults shop order_12)) order))"
    by blast
  have order_eq: "order = \<lparr>o_id = 1, o_customer = 1, o_products = [1, 2], o_total_amount = 51 / 2\<rparr>"
    using o(1) by (simp add: order_12_result)
  have prices: "map p_price (linked_products (snd (CreateOrder_mutate no_faults shop order_12)) order)
      = [10, 31 / 2]"
    unfolding order_eq order_12_result by (simp add: linked_products_def shop_def)
  have total: "o_total_amount order = 51 / 2" by (simp add: order_eq)
  show ?thesis
    by (rule conjI[OF h], rule exI[of _ order], intro conjI o prices total)
qed

text \<open>
  Claim C3, for ids that are numbers. \<^verbatim>\<open>createOrder\<close> fails, with \<^verbatim>\<open>success=False\<close>, one
  error and the store unchanged, in these cases, taken in the order of the checks: the
  customer id resolves to no customer (field \<^verbatim>\<open>customer_id\<close>); otherwise some product id
  resolves to no product (field \<^verbatim>\<open>product_ids\<close>, the message naming the first such id as
  it was given); otherwise the list of product ids is empty (field \<^verbatim>\<open>product_ids\<close>,
  "At least one product must be specified"). An empty list fails for every input.
  Where the customer id and the product ids are numbers, the call fails in exactly these
  three cases and where a write to the store fails.
\<close>

theorem C3_createOrder_failure_cases:
  "(Customer_get d (oi_customer_id inp) = Inr None \<longrightarrow>
      CreateOrder_mutate f d inp =
        (order_errors ''customer_id'' (error_text ''Customer does not exist''), d))
   \<and> (Customer_get d (oi_customer_id inp) = Inr (Some customer)
        \<and> list_all numeric_id (oi_product_ids inp)
        \<and> unresolved d (oi_product_ids inp) = k # rest \<longrightarrow>
      CreateOrder_mutate f d inp =
        (order_errors ''product_ids'' (py_repr_list [product_missing_msg k]), d))
   \<and> (Customer_get d (oi_customer_id inp) = Inr (Some customer) \<and> oi_product_ids inp = [] \<longrightarrow>
      CreateOrder_mutate f d inp =
        (order_errors ''product_ids'' (error_text ''At least one product must be specified''), d))
   \<and> (oi_product_ids inp = [] \<longrightarrow>
        co_success (fst (CreateOrder_mutate f d inp)) = Some False
        \<and> snd (CreateOrder_mutate f d inp) = d)
   \<and> (numeric_id (oi_customer_id inp) \<and> list_all numeric_id (oi_product_ids inp) \<longrightarrow>
        (co_success (fst (CreateOrder_mutate f d inp)) = Some False \<longleftrightarrow>
           Customer_get d (oi_customer_id inp) = Inr None
           \<or> unresolved d (oi_product_ids inp) \<noteq> []
           \<or> oi_product_ids inp = []
           \<or> f \<noteq> no_faults))"
proof -
  have 1: "Customer_get d (oi_customer_id inp) = Inr None \<longrightarrow>
      CreateOrder_mutate f d inp =
        (order_errors ''customer_id'' (error_text ''Customer does not exist''), d)"
    by (simp add: mutate_no_customer)
  have 2: "Customer_get d (oi_customer_id inp) = Inr (Some customer)
        \<and> list_all numeric_id (oi_product_ids inp)
        \<and> unresolved d (oi_product_ids inp) = k # rest \<longrightarrow>
      CreateOrder_mutate f d inp =
        (order_errors ''product_ids'' (py_repr_list [product_missing_msg k]), d)"
    using mutate_product_missing by blast
  have 3: "Customer_get d (oi_customer_id inp) = Inr (Some customer) \<and> oi_product_ids inp = [] \<longrightarrow>
      CreateOrder_mutate f d inp =
        (order_errors ''product_ids'' (error_text ''At least one product must be specified''), d)"
    using mutate_empty by blast
  have 4: "co_success (fst (CreateOrder_mutate f d inp)) = Some False
        \<and> snd (CreateOrder_mutate f d inp) = d" if e: "oi_product_ids inp = []"
  proof (cases "Customer_get d (oi_customer_id inp)")
    case (Inl x)
    then show ?thesis by (simp add: mutate_lookup_error)
  next
    case (Inr x)
    then show ?thesis using e by (cases x) (simp_all add: mutate_no_customer mutate_empty)
  qed
  have 5: "co_success (fst (CreateOrder_mutate f d inp)) = Some False \<longleftrightarrow>
           Customer_get d (oi_customer_id inp) = Inr None
           \<or> unresolved d (oi_product_ids inp) \<noteq> []
           \<or> oi_product_ids inp = []
           \<or> f \<noteq> no_faults"
    if n: "numeric_id (oi_customer_id inp)" "list_all numeric_id (oi_product_ids inp)"
  proof -
    obtain x where x: "Customer_get d (oi_customer_id inp) = Inr x"
      using Customer_get_numeric[OF n(1)] by blast
    show ?thesis
    proof (cases x)
      case None
      then show ?thesis using x by (simp add: mutate_no_customer)
    next
      case (Some c)
      then have c: "Customer_get d (oi_customer_id inp) = Inr (Some c)" using x by simp
      show ?thesis
      proof (cases "unresolved d (oi_product_ids inp)")
        case (Cons a as)
        then show ?thesis using mutate_product_missing[OF c n(2) Cons] by simp
      next
        case Nil
        show ?thesis
        proof (cases "oi_product_ids inp = []")
          case True
          then show ?thesis using 4 by simp
        next
          case False
          then show ?thesis using mutate_resolved[OF c n(2) Nil False] c Nil by simp
        qed
      qed
    qed
  qed
  from 1 2 3 4 5 show ?thesis by blast
qed

theorem C3_createOrder_failure_cases_witness:
  "CreateOrder_mutate links_fail shop \<lparr>oi_customer_id = ''9'', oi_product_ids = [''1'']\<rparr> =
     (order_errors ''customer_id'' (error_text ''Customer does not exist''), shop)
   \<and> CreateOrder_mutate links_fail shop \<lparr>oi_customer_id = ''1'', oi_product_ids = [''1'', ''07'', ''8'']\<rparr> =
     (order_errors ''product_ids'' (error_text ''Product with ID 07 does not exist''), shop)
   \<and> CreateOrder_mutate links_fail shop \<lparr>oi_customer_id = ''1'', oi_product_ids = []\<rparr> =
     (order_errors ''product_ids'' (error_text ''At least one product must be specified''), shop)
   \<and> co_success (fst (CreateOrder_mutate no_faults shop
        \<lparr>oi_customer_id = ''abc'', oi_product_ids = []\<rparr>)) = Some False
   \<and> co_success (fst (CreateOrder_mutate no_faults shop order_12)) \<noteq> Some False
   \<and> co_success (fst (CreateOrder_mutate links_fail shop order_12)) = Some False"
proof -
  have c9: "Customer_get shop ''9'' = Inr None" by code_simp
  have c1: "Customer_get shop ''1'' = Inr (Some alice_row)" by code_simp
  have n: "list_all numeric_id [''1'', ''07'', ''8'']" by code_simp
  have u: "unresolved shop [''1'', ''07'', ''8''] = [''07'', ''8'']" by code_simp
  have m: "py_repr_list [product_missing_msg ''07''] =
      error_text ''Product with ID 07 does not exist''" by code_simp
  have n12: "numeric_id (oi_customer_id order_12) \<and> list_all numeric_id (oi_product_ids order_12)"
    by code_simp
  have u12: "unresolved shop (oi_product_ids order_12) = []" by code_simp
  have ne: "oi_product_ids order_12 \<noteq> []" by (simp add: order_12_def)
  have c12: "Customer_get shop (oi_customer_id order_12) \<noteq> Inr None" by code_simp
  have lf: "links_fail \<noteq> no_faults" by (simp add: no_faults_iff links_fail_def locked_def)
  have a: "CreateOrder_mutate links_fail shop \<lparr>oi_customer_id = ''9'', oi_product_ids = [''1'']\<rparr> =
     (order_errors ''customer_id'' (error_text ''Customer does not exist''), shop)"
    using C3_createOrder_failure_cases[of shop "\<lparr>oi_customer_id = ''9'', oi_product_ids = [''1'']\<rparr>"
        links_fail] c9
    by simp
  have b: "CreateOrder_mutate links_fail shop \<lparr>oi_customer_id = ''1'', oi_product_ids = [''1'', ''07'', ''8'']\<rparr> =
     (order_errors ''product_ids'' (error_text ''Product with ID 07 does not exist''), shop)"
    using C3_createOrder_failure_cases[of shop
        "\<lparr>oi_customer_id = ''1'', oi_product_ids = [''1'', ''07'', ''8'']\<rparr>" links_fail alice_row
        "''07''" "[''8'']"] c1 n u m
    by simp
  have c: "CreateOrder_mutate links_fail shop \<lparr>oi_customer_id = ''1'', oi_product_ids = []\<rparr> =
     (order_errors ''product_ids'' (error_text ''At least one product must be specified''), shop)"
    using C3_createOrder_failure_cases[of shop "\<lparr>oi_customer_id = ''1'', oi_product_ids = []\<rparr>"
        links_fail alice_row] c1
    by simp
  have d: "co_success (fst (CreateOrder_mutate no_faults shop
        \<lparr>oi_customer_id = ''abc'', oi_product_ids = []\<rparr>)) = Some False"
    using C3_createOrder_failure_cases[of shop "\<lparr>oi_customer_id = ''abc'', oi_product_ids = []\<rparr>"
        no_faults]
    by simp
  have e: "co_success (fst (CreateOrder_mutate no_faults shop order_12)) \<noteq> Some False"
    using C3_createOrder_failure_cases[of shop order_12 no_faults] n12 u12 ne c12 by simp
  have f: "co_success (fst (CreateOrder_mutate links_fail shop order_12)) = Some False"
    using C3_createOrder_failure_cases[of shop order_12 links_fail] n12 lf by simp
  from a b c d e f show ?thesis by blast
qed

text \<open>
  An id that is no number is a further case of failure: the lookup raises \<^verbatim>\<open>ValueError\<close>,
  which lines 206 and 215 do not catch, and the field is read off its text. The customer
  id \<^verbatim>\<open>abc\<close> resolves to no customer and the field is \<^verbatim>\<open>non_field_errors\<close>; the product id
  \<^verbatim>\<open>x7\<close> resolves to no product and the field is \<^verbatim>\<open>non_field_errors\<close>; the product id
  \<^verbatim>\<open>customer\<close> gives the field \<^verbatim>\<open>customer_id\<close>, with a customer that exists. The cases
  are taken in the order of the checks: with the customer 9 and the product 7 both
  missing, the field is \<^verbatim>\<open>customer_id\<close>. And a call whose customer and products resolve
  fails where the store refuses a write.
\<close>

theorem C3_id_not_a_number_counterexample:
  "CreateOrder_mutate no_faults shop \<lparr>oi_customer_id = ''abc'', oi_product_ids = [''1'']\<rparr> =
     (order_errors ''non_field_errors'' (not_a_number ''abc''), shop)
   \<and> CreateOrder_mutate no_faults shop \<lparr>oi_customer_id = ''1'', oi_product_ids = [''1'', ''x7'']\<rparr> =
     (order_errors ''non_field_errors'' (not_a_number ''x7''), shop)
   \<and> CreateOrder_mutate no_faults shop \<lparr>oi_customer_id = ''1'', oi_product_ids = [''customer'']\<rparr> =
     (order_errors ''customer_id'' (not_a_number ''customer''), shop)
   \<and> not_a_number ''abc'' =
       ''Field '' @ [squote] @ ''id'' @ [squote] @ '' expected a number but got ''
         @ [squote] @ ''abc'' @ [squote] @ ''.''
   \<and> CreateOrder_mutate no_faults shop \<lparr>oi_customer_id = ''9'', oi_product_ids = [''7'']\<rparr> =
     (order_errors ''customer_id'' (error_text ''Customer does not exist''), shop)
   \<and> CreateOrder_mutate links_fail shop order_12 =
     (order_errors ''non_field_errors'' ''database is locked'', shop)"
  by code_simp

text \<open>
  Claim C5. Whatever the input and whichever of the writes fail, a \<^verbatim>\<open>createOrder\<close> that
  does not succeed leaves the store as it was and returns no order: no order and no link
  is added, whether the failure is in the lookup of the customer, in the lookup of a
  product, in the creation of the order, in the creation of the links or in the saving
  that computes the total.
\<close>

theorem C5_createOrder_atomic:
  "co_success (fst (CreateOrder_mutate f d inp)) \<noteq> Some True \<Longrightarrow>
     snd (CreateOrder_mutate f d inp) = d \<and> co_order (fst (CreateOrder_mutate f d inp)) = None"
proof -
  assume a: "co_success (fst (CreateOrder_mutate f d inp)) \<noteq> Some True"
  obtain r d' m where t: "CreateOrder_try f d inp = (r, d', m)"
    by (cases "CreateOrder_try f d inp") auto
  then obtain e where r: "r = Inl e"
    using a by (cases r) (auto simp: CreateOrder_mutate_def)
  have "m \<or> d' = d" using CreateOrder_try_Inl t r by blast
  then show ?thesis using t r by (auto simp: CreateOrder_mutate_def)
qed

text \<open>
  Where the store refuses the links, the body has already stored the order row, without
  links and with total 0, when the exception is caught; the store after the call holds
  no such row.
\<close>

theorem C5_createOrder_atomic_witness:
  "co_success (fst (CreateOrder_mutate links_fail shop order_12)) \<noteq> Some True
   \<and> fst (snd (CreateOrder_try links_fail shop order_12)) =
       shop\<lparr>orders := [\<lparr>o_id = 1, o_customer = 1, o_products = [], o_total_amount = 0\<rparr>]\<rparr>
   \<and> snd (CreateOrder_mutate links_fail shop order_12) = shop
   \<and> co_order (fst (CreateOrder_mutate links_fail shop order_12)) = None
   \<and> co_success (fst (CreateOrder_mutate no_faults shop
         \<lparr>oi_customer_id = ''1'', oi_product_ids = [''1'', ''7'']\<rparr>)) \<noteq> Some True
   \<and> snd (CreateOrder_mutate no_faults shop
         \<lparr>oi_customer_id = ''1'', oi_product_ids = [''1'', ''7'']\<rparr>) = shop"
proof -
  have h: "co_success (fst (CreateOrder_mutate links_fail shop order_12)) \<noteq> Some True"
    by code_simp
  have b: "fst (snd (CreateOrder_try links_fail shop order_12)) =
       shop\<lparr>orders := [\<lparr>o_id = 1, o_customer = 1, o_products = [], o_total_amount = 0\<rparr>]\<rparr>"
    by code_simp
  have g: "co_success (fst (CreateOrder_mutate no_faults shop
         \<lparr>oi_customer_id = ''1'', oi_product_ids = [''1'', ''7'']\<rparr>)) \<noteq> Some True"
    by code_simp
  from C5_createOrder_atomic[OF h] C5_createOrder_atomic[OF g] h b g show ?thesis
    by (intro conjI) simp_all
qed

text \<open>
  Claim C10. \<^verbatim>\<open>createOrder\<close> resolves the customer first: where the customer id resolves
  to no customer, the result does not depend on the product ids, on the stored products
  or on the writes. Where the id is a number that no customer has, the result is the
  customer error (field \<^verbatim>\<open>customer_id\<close>); where the id is no number, it is the failure of the
  \<^verbatim>\<open>ValueError\<close> of the lookup. The store is unchanged in both cases.
\<close>

theorem C10_customer_first:
  "(Customer_get d cid = Inr None \<longrightarrow>
      CreateOrder_mutate f (d\<lparr>products := ps\<rparr>) \<lparr>oi_customer_id = cid, oi_product_ids = pids\<rparr> =
        (order_errors ''customer_id'' (error_text ''Customer does not exist''), d\<lparr>products := ps\<rparr>))
   \<and> (py_int cid = None \<longrightarrow>
      CreateOrder_mutate f (d\<lparr>products := ps\<rparr>) \<lparr>oi_customer_id = cid, oi_product_ids = pids\<rparr> =
        (order_failure (ValueError (not_a_number cid)), d\<lparr>products := ps\<rparr>))"
proof -
  have 1: "CreateOrder_mutate f (d\<lparr>products := ps\<rparr>) \<lparr>oi_customer_id = cid, oi_product_ids = pids\<rparr> =
        (order_errors ''customer_id'' (error_text ''Customer does not exist''), d\<lparr>products := ps\<rparr>)"
    if "Customer_get d cid = Inr None"
    using that by (simp add: mutate_no_customer)
  have 2: "CreateOrder_mutate f (d\<lparr>products := ps\<rparr>) \<lparr>oi_customer_id = cid, oi_product_ids = pids\<rparr> =
        (order_failure (ValueError (not_a_number cid)), d\<lparr>products := ps\<rparr>)"
    if "py_int cid = None"
  proof -
    have "Customer_get (d\<lparr>products := ps\<rparr>) cid = Inl (ValueError (not_a_number cid))"
      using that by (simp add: Customer_get_def)
    then show ?thesis by (simp add: mutate_lookup_error)
  qed
  from 1 2 show ?thesis by blast
qed

theorem C10_customer_first_witness:
  "CreateOrder_mutate links_fail (shop\<lparr>products := []\<rparr>)
       \<lparr>oi_customer_id = ''9'', oi_product_ids = [''1'', ''x7'']\<rparr> =
     (order_errors ''customer_id'' (error_text ''Customer does not exist''), shop\<lparr>products := []\<rparr>)
   \<and> CreateOrder_mutate no_faults (shop\<lparr>products := products shop\<rparr>)
       \<lparr>oi_customer_id = ''9'', oi_product_ids = []\<rparr> =
     (order_errors ''customer_id'' (error_text ''Customer does not exist''),
      shop\<lparr>products := products shop\<rparr>)
   \<and> CreateOrder_mutate links_fail (shop\<lparr>products := []\<rparr>)
       \<lparr>oi_customer_id = ''1.0'', oi_product_ids = [''1'', ''x7'']\<rparr> =
     (order_errors ''non_field_errors'' (not_a_number ''1.0''), shop\<lparr>products := []\<rparr>)"
proof -
  have c9: "Customer_get shop ''9'' = Inr None" by code_simp
  have n: "py_int ''1.0'' = None" by code_simp
  have e: "order_failure (ValueError (not_a_number ''1.0'')) =
      order_errors ''non_field_errors'' (not_a_number ''1.0'')" by code_simp
  show ?thesis
    using C10_customer_first[of shop "''9''" links_fail "[]" "[''1'', ''x7'']"]
      C10_customer_first[of shop "''9''" no_faults "products shop" "[]"]
      C10_customer_first[of shop "''1.0''" links_fail "[]" "[''1'', ''x7'']"]
      c9 n e
    by simp
qed

text \<open>
  A customer id that is no number resolves to no customer, and the field is read off the
  text of the \<^verbatim>\<open>ValueError\<close>: the customer id \<^verbatim>\<open>product\<close> gives the field \<^verbatim>\<open>product_ids\<close>,
  the customer id \<^verbatim>\<open>one\<close> the field \<^verbatim>\<open>non_field_errors\<close>.
\<close>

theorem C10_customer_id_counterexample:
  "CreateOrder_mutate no_faults shop \<lparr>oi_customer_id = ''product'', oi_product_ids = [''1'']\<rparr> =
     (order_errors ''product_ids'' (not_a_number ''product''), shop)
   \<and> CreateOrder_mutate no_faults shop \<lparr>oi_customer_id = ''one'', oi_product_ids = [''1'']\<rparr> =
     (order_errors ''non_field_errors'' (not_a_number ''one''), shop)
   \<and> not_a_number ''product'' =
       ''Field '' @ [squote] @ ''id'' @ [squote] @ '' expected a number but got ''
         @ [squote] @ ''product'' @ [squote] @ ''.''"
  by code_simp

end
